theory Spec2Isabelle
  imports Main
begin

section \<open>Data model\<close>

text \<open>
  The complaint lifecycle of the NFC backend: the Mongoose schema of a complaint
  (models/Complaint), the service functions that move a complaint through its
  states (services/complaintService), the controller functions that build the
  role-scoped filters (controllers/complaintController), the validators of
  routes/complaintRoutes and the notification helper (utils/notificationHelper).

  Object ids are natural numbers. A JavaScript value that may be \<open>undefined\<close>
  is an \<open>option\<close>. Every call of \<open>new Date()\<close> inside one request reads the same
  instant, the parameter \<open>now\<close> of the operation.
\<close>

type_synonym oid = nat

text \<open>
  A \<open>Date\<close>, as far as the code looks at one: \<open>getFullYear()\<close>, \<open>getMonth()\<close>
  (0 to 11) and the time elapsed since the first instant of that month.
\<close>

record date =
  fullYear :: nat
  monthIx :: nat
  offset :: nat

text \<open>\<open>new Date(y, m, 1)\<close>: a month index past 11 carries into the year.\<close>

definition mkDate :: "nat \<Rightarrow> nat \<Rightarrow> date" where
  "mkDate y m = \<lparr>fullYear = y + m div 12, monthIx = m mod 12, offset = 0\<rparr>"

definition date_lt :: "date \<Rightarrow> date \<Rightarrow> bool" where
  "date_lt a b \<longleftrightarrow>
     fullYear a < fullYear b \<or>
     (fullYear a = fullYear b \<and>
       (monthIx a < monthIx b \<or> (monthIx a = monthIx b \<and> offset a < offset b)))"

definition date_le :: "date \<Rightarrow> date \<Rightarrow> bool" where
  "date_le a b \<longleftrightarrow> date_lt a b \<or> a = b"

datatype cstatus = pending | assigned | resolved | closed | escalated | finalResolution

fun status_name :: "cstatus \<Rightarrow> string" where
  "status_name pending = ''pending''"
| "status_name assigned = ''assigned''"
| "status_name resolved = ''resolved''"
| "status_name closed = ''closed''"
| "status_name escalated = ''escalated''"
| "status_name finalResolution = ''finalResolution''"

record history_entry =
  h_status :: cstatus
  updatedBy :: oid
  timestamp :: date
  h_notes :: string

record feedback_doc =
  rating :: "int option"
  comment :: "string option"
  submittedAt :: "date option"

record escalation_doc =
  escalatedAt :: "date option"
  reason :: "string option"
  appellateAuthority :: "oid option"
  finalResolutionText :: "string option"
  finalResolvedAt :: "date option"

record complaint =
  c_id :: oid
  complaintId :: string
  userId :: oid
  resourceId :: oid
  category :: string
  subcategory :: string
  description :: string
  images :: "string list"
  status :: cstatus
  assignedAgency :: "oid option"
  assignedStaff :: "oid option"
  assignedAt :: "date option"
  resolvedAt :: "date option"
  closedAt :: "date option"
  feedback :: feedback_doc
  escalation :: escalation_doc
  resolutionNotes :: "string option"
  history :: "history_entry list"
  createdAt :: date
  updatedAt :: date

definition no_feedback :: feedback_doc where
  "no_feedback = \<lparr>rating = None, comment = None, submittedAt = None\<rparr>"

definition no_escalation :: escalation_doc where
  "no_escalation = \<lparr>escalatedAt = None, reason = None, appellateAuthority = None,
     finalResolutionText = None, finalResolvedAt = None\<rparr>"

text \<open>
  A user, as far as the complaint code reads one. The User model itself is not part
  of the sources; the fields are those the queries and the controllers use.
\<close>

record user =
  uid :: oid
  uname :: string
  urole :: string
  udepartment :: "string option"
  ustatus :: string

text \<open>
  The errors the services throw. The code throws plain \<open>Error\<close> objects; the
  constructor is the class the specification files the message under, the
  argument is the message.
\<close>

datatype error =
    NotFound string
  | InvalidState string
  | ValidationError string
  | DuplicateKey string

section \<open>Strings of JavaScript\<close>

definition digit_char :: "nat \<Rightarrow> char" where
  "digit_char d = ''0123456789'' ! d"

text \<open>\<open>String(n)\<close> for a non-negative integer.\<close>

function dec :: "nat \<Rightarrow> string" where
  "dec n = (if n < 10 then [digit_char n] else dec (n div 10) @ [digit_char (n mod 10)])"
  by pat_completeness auto
termination
  by (relation "measure id") auto

declare dec.simps [simp del]

definition dec_int :: "int \<Rightarrow> string" where
  "dec_int i = (if i < 0 then CHR ''-'' # dec (nat (- i)) else dec (nat i))"

text \<open>\<open>s.padStart(n, c)\<close> for a one-character pad, and \<open>s.slice(-n)\<close>.\<close>

definition padStart :: "nat \<Rightarrow> char \<Rightarrow> string \<Rightarrow> string" where
  "padStart n c s = replicate (n - length s) c @ s"

definition slice_last :: "nat \<Rightarrow> string \<Rightarrow> string" where
  "slice_last n s = drop (length s - n) s"

text \<open>\<open>x || d\<close> on an optional string: \<open>undefined\<close> and the empty string are falsy.\<close>

fun or_else :: "string option \<Rightarrow> string \<Rightarrow> string" where
  "or_else None d = d"
| "or_else (Some s) d = (if s = [] then d else s)"

fun truthy :: "string option \<Rightarrow> bool" where
  "truthy None = False"
| "truthy (Some s) = (s \<noteq> [])"

section \<open>Notifications and the trace of a request\<close>

record notification =
  n_recipient :: "oid option"
  n_title :: string
  n_message :: string

text \<open>
  What a request does, in order. \<open>Saved\<close> is a successful \<open>complaint.save\<close> inside
  the session; \<open>Delivered\<close> is a \<open>sendNotification\<close> that returned true;
  \<open>DeliveryLogged\<close> is one whose body threw: the helper's \<open>catch\<close> logs the error
  and returns false.
\<close>

datatype event =
    StartTransaction
  | Saved oid
  | Delivered notification
  | DeliveryLogged notification
  | CommitTransaction
  | AbortTransaction

text \<open>
  \<open>sendNotification\<close>: the parameter \<open>delivers\<close> says whether the body of the
  \<open>try\<close> runs through. Either way the helper returns, with a boolean; it never
  throws.
\<close>

definition sendNotification ::
  "(notification \<Rightarrow> bool) \<Rightarrow> oid option \<Rightarrow> string \<Rightarrow> string \<Rightarrow> event list \<times> bool" where
  "sendNotification delivers recipient title message =
     (let n = \<lparr>n_recipient = recipient, n_title = title, n_message = message\<rparr>
      in if delivers n then ([Delivered n], True) else ([DeliveryLogged n], False))"

section \<open>The complaint store\<close>

definition findById :: "complaint list \<Rightarrow> oid \<Rightarrow> complaint option" where
  "findById store i = find (\<lambda>d. c_id d = i) store"

text \<open>Writing a document back: it replaces the stored one with its \<open>_id\<close>, or is new.\<close>

definition save_doc :: "complaint \<Rightarrow> complaint list \<Rightarrow> complaint list" where
  "save_doc c store =
     (if findById store (c_id c) = None then store @ [c]
      else map (\<lambda>d. if c_id d = c_id c then c else d) store)"

text \<open>
  The transaction around the body of a service function: the body gives the events
  it caused and either the error it threw or the document it saved. A throw aborts
  and the store stays as it was; otherwise the transaction commits.
\<close>

definition transact ::
  "complaint list \<Rightarrow> event list \<times> (error + complaint) \<Rightarrow>
     (error + complaint) \<times> complaint list \<times> event list" where
  "transact store r =
     (case snd r of
        Inl e \<Rightarrow> (Inl e, store, StartTransaction # fst r @ [AbortTransaction])
      | Inr c \<Rightarrow> (Inr c, save_doc c store, StartTransaction # fst r @ [CommitTransaction]))"

definition approved_with_role :: "string list \<Rightarrow> user \<Rightarrow> bool" where
  "approved_with_role roles u \<longleftrightarrow> urole u \<in> set roles \<and> ustatus u = ''approved''"

section \<open>Saving a document\<close>

text \<open>
  \<open>db.countDocuments({createdAt: {$gte: new Date(y, m, 1), $lt: new Date(y, m + 1, 1)}})\<close>
  of the pre-save hook, for the year and month of \<open>date\<close>.
\<close>

definition countDocuments_month :: "complaint list \<Rightarrow> date \<Rightarrow> nat" where
  "countDocuments_month store d =
     length (filter (\<lambda>c. date_le (mkDate (fullYear d) (monthIx d)) (createdAt c) \<and>
                          date_lt (createdAt c) (mkDate (fullYear d) (monthIx d + 1))) store)"

text \<open>
  The identifier the pre-save hook builds: \<open>CMP-\<close>, the last two digits of the year,
  the month padded to two digits, and the number of complaints created in the
  current month plus one, padded to four digits.
\<close>

definition next_complaintId :: "date \<Rightarrow> complaint list \<Rightarrow> string" where
  "next_complaintId d store =
     ''CMP-'' @ slice_last 2 (dec (fullYear d)) @ ''-'' @
     padStart 2 CHR ''0'' (dec (monthIx d + 1)) @ ''-'' @
     padStart 4 CHR ''0'' (dec (countDocuments_month store d + 1))"

text \<open>
  \<open>complaintSchema.pre("save")\<close>: a new document gets its identifier; a document
  that is not new is left alone.
\<close>

definition pre_save :: "date \<Rightarrow> complaint list \<Rightarrow> bool \<Rightarrow> complaint \<Rightarrow> complaint" where
  "pre_save d store isNew doc =
     (if isNew then doc\<lparr>complaintId := next_complaintId d store\<rparr> else doc)"

text \<open>
  \<open>complaint.save()\<close> on a stored document, one that is not new: the \<open>timestamps\<close>
  option stamps \<open>updatedAt\<close>, and the hook sees \<open>isNew\<close> false. The paths a service
  function modifies are validated where that function is modelled.
\<close>

definition on_save :: "date \<Rightarrow> complaint list \<Rightarrow> complaint \<Rightarrow> complaint" where
  "on_save now store doc = pre_save now store False (doc\<lparr>updatedAt := now\<rparr>)"

section \<open>The service functions\<close>

definition push_history :: "cstatus \<Rightarrow> oid \<Rightarrow> date \<Rightarrow> string \<Rightarrow> complaint \<Rightarrow> complaint" where
  "push_history s who now n c =
     c\<lparr>history := history c @ [\<lparr>h_status = s, updatedBy = who, timestamp = now, h_notes = n\<rparr>]\<rparr>"

text \<open>The body of a service function is the code between \<open>try {\<close> and the commit.\<close>

definition assignComplaint_body ::
  "(notification \<Rightarrow> bool) \<Rightarrow> user list \<Rightarrow> date \<Rightarrow> complaint list \<Rightarrow> oid \<Rightarrow> oid \<Rightarrow> oid \<Rightarrow>
     event list \<times> (error + complaint)" where
  "assignComplaint_body delivers users now store cid agencyId actor =
     (case findById store cid of
        None \<Rightarrow> ([], Inl (NotFound ''Complaint not found''))
      | Some c0 \<Rightarrow>
          (case find (\<lambda>u. uid u = agencyId \<and>
                          approved_with_role [''departmentAdmin'', ''maintenanceStaff''] u) users of
             None \<Rightarrow> ([], Inl (NotFound ''Maintenance agency not found''))
           | Some agency \<Rightarrow>
               let c = on_save now store
                         (push_history assigned actor now (''Assigned to '' @ uname agency)
                            (c0\<lparr>assignedAgency := Some agencyId, status := assigned,
                                assignedAt := Some now\<rparr>))
               in (Saved (c_id c) #
                   fst (sendNotification delivers (Some agencyId) ''Complaint Assigned''
                     (''A complaint '' @ complaintId c @ '' has been assigned to you'')) @
                   fst (sendNotification delivers (Some (userId c)) ''Complaint Update''
                     (''Your complaint '' @ complaintId c @
                      '' has been assigned to maintenance staff'')),
                   Inr c)))"

definition assignComplaint ::
  "(notification \<Rightarrow> bool) \<Rightarrow> user list \<Rightarrow> date \<Rightarrow> complaint list \<Rightarrow> oid \<Rightarrow> oid \<Rightarrow> oid \<Rightarrow>
     (error + complaint) \<times> complaint list \<times> event list" where
  "assignComplaint delivers users now store cid agencyId actor =
     transact store (assignComplaint_body delivers users now store cid agencyId actor)"

definition assignToStaff_body ::
  "(notification \<Rightarrow> bool) \<Rightarrow> user list \<Rightarrow> date \<Rightarrow> complaint list \<Rightarrow> oid \<Rightarrow> oid \<Rightarrow> oid \<Rightarrow>
     event list \<times> (error + complaint)" where
  "assignToStaff_body delivers users now store cid staffId agencyId =
     (case findById store cid of
        None \<Rightarrow> ([], Inl (NotFound ''Complaint not found''))
      | Some c0 \<Rightarrow>
          (case find (\<lambda>u. uid u = staffId \<and> approved_with_role [''maintenanceStaff''] u) users of
             None \<Rightarrow> ([], Inl (NotFound ''Maintenance staff not found''))
           | Some staff \<Rightarrow>
               let c = on_save now store
                         (push_history (status c0) agencyId now
                            (''Assigned to staff: '' @ uname staff)
                            (c0\<lparr>assignedStaff := Some staffId\<rparr>))
               in (Saved (c_id c) #
                   fst (sendNotification delivers (Some staffId) ''Complaint Assigned''
                     (''A complaint '' @ complaintId c @ '' has been assigned to you'')),
                   Inr c)))"

definition assignToStaff ::
  "(notification \<Rightarrow> bool) \<Rightarrow> user list \<Rightarrow> date \<Rightarrow> complaint list \<Rightarrow> oid \<Rightarrow> oid \<Rightarrow> oid \<Rightarrow>
     (error + complaint) \<times> complaint list \<times> event list" where
  "assignToStaff delivers users now store cid staffId agencyId =
     transact store (assignToStaff_body delivers users now store cid staffId agencyId)"

definition resolveComplaint_body ::
  "(notification \<Rightarrow> bool) \<Rightarrow> date \<Rightarrow> complaint list \<Rightarrow> oid \<Rightarrow> string \<Rightarrow> oid \<Rightarrow>
     event list \<times> (error + complaint)" where
  "resolveComplaint_body delivers now store cid resolutionNotesArg actor =
     (case findById store cid of
        None \<Rightarrow> ([], Inl (NotFound ''Complaint not found''))
      | Some c0 \<Rightarrow>
          if status c0 \<noteq> assigned
          then ([], Inl (InvalidState ''Complaint must be in assigned status to be resolved''))
          else
            let c = on_save now store
                      (push_history resolved actor now resolutionNotesArg
                         (c0\<lparr>status := resolved, resolvedAt := Some now,
                             resolutionNotes := Some resolutionNotesArg\<rparr>))
            in (Saved (c_id c) #
                fst (sendNotification delivers (Some (userId c)) ''Complaint Resolved''
                  (''Your complaint '' @ complaintId c @
                   '' has been resolved. Please provide feedback.'')),
                Inr c))"

definition resolveComplaint ::
  "(notification \<Rightarrow> bool) \<Rightarrow> date \<Rightarrow> complaint list \<Rightarrow> oid \<Rightarrow> string \<Rightarrow> oid \<Rightarrow>
     (error + complaint) \<times> complaint list \<times> event list" where
  "resolveComplaint delivers now store cid resolutionNotesArg actor =
     transact store (resolveComplaint_body delivers now store cid resolutionNotesArg actor)"

text \<open>
  \<open>submitFeedback\<close>. The notifications of both branches are sent before
  \<open>complaint.save\<close>; the save validates \<open>feedback.rating\<close> against the schema's
  \<open>min: 1, max: 5\<close> and throws when it is out of range.
\<close>

definition feedback_note :: "string \<Rightarrow> int \<Rightarrow> string option \<Rightarrow> string" where
  "feedback_note lead r c =
     lead @ '' Rating: '' @ dec_int r @ ''/5, Comment: '' @ or_else c ''None''"

text \<open>The branch \<open>rating >= 3\<close>: the document to save and the notifications sent.\<close>

definition feedback_close ::
  "(notification \<Rightarrow> bool) \<Rightarrow> date \<Rightarrow> oid \<Rightarrow> int \<Rightarrow> string option \<Rightarrow> complaint \<Rightarrow>
     complaint \<times> event list" where
  "feedback_close delivers now actor ratingArg commentArg c1 =
     (push_history closed actor now
        (feedback_note ''User satisfied with resolution.'' ratingArg commentArg)
        (c1\<lparr>status := closed, closedAt := Some now\<rparr>),
      fst (sendNotification delivers (assignedAgency c1) ''Complaint Closed''
        (''Complaint '' @ complaintId c1 @ '' has been closed with rating: '' @
         dec_int ratingArg @ ''/5'')))"

text \<open>
  The \<open>else\<close> branch: the escalation, the lookup of the first approved super admin,
  who is recorded and notified when there is one, and the notification of the agency.
\<close>

definition feedback_escalate ::
  "(notification \<Rightarrow> bool) \<Rightarrow> user list \<Rightarrow> date \<Rightarrow> oid \<Rightarrow> int \<Rightarrow> string option \<Rightarrow> complaint \<Rightarrow>
     complaint \<times> event list" where
  "feedback_escalate delivers users now actor ratingArg commentArg c1 =
     (let c3 = push_history escalated actor now
                 (feedback_note ''User not satisfied with resolution.'' ratingArg commentArg)
                 (c1\<lparr>status := escalated,
                     escalation := no_escalation
                       \<lparr>escalatedAt := Some now,
                        reason := Some (or_else commentArg
                          ''User not satisfied with resolution'')\<rparr>\<rparr>);
          agencyNote =
            fst (sendNotification delivers (assignedAgency c1) ''Complaint Escalated''
              (''Complaint '' @ complaintId c1 @ '' has been escalated. Rating: '' @
               dec_int ratingArg @ ''/5''))
      in (case find (approved_with_role [''superAdmin'']) users of
            None \<Rightarrow> (c3, agencyNote)
          | Some authority \<Rightarrow>
              (c3\<lparr>escalation := (escalation c3)
                    \<lparr>appellateAuthority := Some (uid authority)\<rparr>\<rparr>,
               fst (sendNotification delivers (Some (uid authority)) ''Complaint Escalated''
                 (''Complaint '' @ complaintId c1 @
                  '' has been escalated due to unsatisfactory resolution'')) @
               agencyNote)))"

definition submitFeedback_body ::
  "(notification \<Rightarrow> bool) \<Rightarrow> user list \<Rightarrow> date \<Rightarrow> complaint list \<Rightarrow> oid \<Rightarrow> int \<Rightarrow>
     string option \<Rightarrow> oid \<Rightarrow> event list \<times> (error + complaint)" where
  "submitFeedback_body delivers users now store cid ratingArg commentArg actor =
     (case findById store cid of
        None \<Rightarrow> ([], Inl (NotFound ''Complaint not found''))
      | Some c0 \<Rightarrow>
          if status c0 \<noteq> resolved
          then ([], Inl (InvalidState ''Complaint must be resolved before submitting feedback''))
          else
            let c1 = c0\<lparr>feedback := \<lparr>rating = Some ratingArg, comment = commentArg,
                                      submittedAt = Some now\<rparr>\<rparr>;
                branch =
                  (if ratingArg \<ge> 3
                   then feedback_close delivers now actor ratingArg commentArg c1
                   else feedback_escalate delivers users now actor ratingArg commentArg c1)
            in if 1 \<le> ratingArg \<and> ratingArg \<le> 5
               then (snd branch @ [Saved (c_id (fst branch))],
                     Inr (on_save now store (fst branch)))
               else (snd branch,
                     Inl (ValidationError ''Complaint validation failed: feedback.rating'')))"

definition submitFeedback ::
  "(notification \<Rightarrow> bool) \<Rightarrow> user list \<Rightarrow> date \<Rightarrow> complaint list \<Rightarrow> oid \<Rightarrow> int \<Rightarrow>
     string option \<Rightarrow> oid \<Rightarrow> (error + complaint) \<times> complaint list \<times> event list" where
  "submitFeedback delivers users now store cid ratingArg commentArg actor =
     transact store (submitFeedback_body delivers users now store cid ratingArg commentArg actor)"

definition finalizeComplaint_body ::
  "(notification \<Rightarrow> bool) \<Rightarrow> date \<Rightarrow> complaint list \<Rightarrow> oid \<Rightarrow> string \<Rightarrow> oid \<Rightarrow>
     event list \<times> (error + complaint)" where
  "finalizeComplaint_body delivers now store cid resolution authorityId =
     (case findById store cid of
        None \<Rightarrow> ([], Inl (NotFound ''Complaint not found''))
      | Some c0 \<Rightarrow>
          if status c0 \<noteq> escalated
          then ([], Inl (InvalidState ''Only escalated complaints can receive final resolution''))
          else
            let c = on_save now store
                      (push_history finalResolution authorityId now
                         (''Final resolution: '' @ resolution)
                         (c0\<lparr>status := finalResolution,
                             escalation := (escalation c0)
                               \<lparr>finalResolutionText := Some resolution,
                                finalResolvedAt := Some now\<rparr>,
                             closedAt := Some now\<rparr>))
            in (Saved (c_id c) #
                fst (sendNotification delivers (Some (userId c)) ''Final Resolution''
                  (''Your escalated complaint '' @ complaintId c @
                   '' has received final resolution from the appellate authority'')) @
                fst (sendNotification delivers (assignedAgency c) ''Final Resolution''
                  (''Escalated complaint '' @ complaintId c @
                   '' has received final resolution from the appellate authority'')),
                Inr c))"

definition finalizeComplaint ::
  "(notification \<Rightarrow> bool) \<Rightarrow> date \<Rightarrow> complaint list \<Rightarrow> oid \<Rightarrow> string \<Rightarrow> oid \<Rightarrow>
     (error + complaint) \<times> complaint list \<times> event list" where
  "finalizeComplaint delivers now store cid resolution authorityId =
     transact store (finalizeComplaint_body delivers now store cid resolution authorityId)"

section \<open>Creating a complaint\<close>

text \<open>
  The fields of the request body that \<open>createComplaint\<close> reads. A string field that
  is missing is the empty string (both fail \<open>notEmpty\<close>, \<open>isIn\<close> and \<open>required\<close>);
  \<open>resourceId\<close> and \<open>images\<close> may be missing.
\<close>

record complaint_data =
  d_resourceId :: "oid option"
  d_category :: string
  d_subcategory :: string
  d_description :: string
  d_images :: "string list option"

definition category_enum :: "string list" where
  "category_enum = [''Electrical'', ''Civil'', ''Misc'']"

text \<open>The \<open>COMPLAINT_CATEGORIES\<close> table of utils/constants.\<close>

definition COMPLAINT_CATEGORIES :: "string \<Rightarrow> string list option" where
  "COMPLAINT_CATEGORIES c =
     (if c = ''Electrical'' then
        Some [''Lighting'', ''Power Outlets'', ''Fan/AC'', ''Electrical Appliances'',
              ''Switchboard'', ''Wiring Issues'', ''UPS/Inverter'', ''Other Electrical'']
      else if c = ''Civil'' then
        Some [''Plumbing'', ''Drainage'', ''Wall/Ceiling'', ''Flooring'', ''Carpentry'',
              ''Painting'', ''Doors/Windows'', ''Water Supply'', ''Other Civil'']
      else if c = ''Misc'' then
        Some [''Housekeeping'', ''Garden/Landscape'', ''Security'', ''Parking'', ''Facilities'',
              ''Pest Control'', ''Internet/Network'', ''Common Area'', ''Other'']
      else None)"

definition fresh_oid :: "complaint list \<Rightarrow> oid" where
  "fresh_oid store = Suc (foldr max (map c_id store) 0)"

definition new_complaint ::
  "date \<Rightarrow> complaint list \<Rightarrow> oid \<Rightarrow> complaint_data \<Rightarrow> user \<Rightarrow> complaint" where
  "new_complaint now store r d usr =
     \<lparr>c_id = fresh_oid store, complaintId = [], userId = uid usr, resourceId = r,
      category = d_category d, subcategory = d_subcategory d, description = d_description d,
      images = (case d_images d of None \<Rightarrow> [] | Some xs \<Rightarrow> xs),
      status = pending, assignedAgency = None, assignedStaff = None, assignedAt = None,
      resolvedAt = None, closedAt = None, feedback = no_feedback, escalation = no_escalation,
      resolutionNotes = None,
      history = [\<lparr>h_status = pending, updatedBy = uid usr, timestamp = now,
                  h_notes = ''Complaint submitted''\<rparr>],
      createdAt = now, updatedAt = now\<rparr>"

definition notification_audience :: "user list \<Rightarrow> string \<Rightarrow> user list" where
  "notification_audience users cat =
     (if cat = ''Misc'' then filter (approved_with_role [''superAdmin'']) users
      else filter (\<lambda>u. urole u = ''departmentAdmin'' \<and> udepartment u = Some cat \<and>
                        ustatus u = ''approved'') users)"

text \<open>
  What the schema demands of a new document before it is saved: \<open>complaintId\<close>,
  \<open>subcategory\<close> and \<open>description\<close> \<open>required\<close> (an empty string does not meet
  \<open>required\<close>), \<open>category\<close> in its \<open>enum\<close>, \<open>description\<close> within \<open>maxlength\<close>.
  \<open>userId\<close> and \<open>resourceId\<close>, also \<open>required\<close>, are present in every value of the
  record. The schema puts no bound on \<open>images\<close> and does not look at
  \<open>COMPLAINT_CATEGORIES\<close>.
\<close>

definition schema_valid :: "complaint \<Rightarrow> bool" where
  "schema_valid doc \<longleftrightarrow>
     complaintId doc \<noteq> [] \<and> category doc \<in> set category_enum \<and> subcategory doc \<noteq> [] \<and>
     description doc \<noteq> [] \<and> length (description doc) \<le> 1000"

text \<open>
  \<open>complaint.save()\<close> on a new document. Mongoose validates the document first, in
  a pre-save hook of its own that precedes the hooks of the schema; only a document
  that passes reaches \<open>complaintSchema.pre("save")\<close>, which then sets the
  identifier. \<open>complaintId\<close> is declared \<open>unique\<close>: the insert fails on an identifier
  that is already stored.
\<close>

definition save_new :: "date \<Rightarrow> complaint list \<Rightarrow> complaint \<Rightarrow> error + complaint" where
  "save_new now store doc =
     (if schema_valid doc
      then
        let c = pre_save now store True doc
        in if complaintId c \<in> set (map complaintId store)
           then Inl (DuplicateKey ''E11000 duplicate key error: complaintId'')
           else Inr c
      else Inl (ValidationError ''Complaint validation failed''))"

text \<open>
  \<open>createComplaint\<close> of the service. The document is built from the five fields of
  \<open>complaintData\<close>, the caller, the status \<open>pending\<close> and the first history entry;
  nothing gives it a \<open>complaintId\<close> before \<open>save\<close>.
\<close>

definition createComplaint_body ::
  "(notification \<Rightarrow> bool) \<Rightarrow> user list \<Rightarrow> date \<Rightarrow> complaint list \<Rightarrow> complaint_data \<Rightarrow> user \<Rightarrow>
     event list \<times> (error + complaint)" where
  "createComplaint_body delivers users now store d usr =
     (case d_resourceId d of
        None \<Rightarrow> ([], Inl (ValidationError ''Complaint validation failed''))
      | Some r \<Rightarrow>
          (case save_new now store (new_complaint now store r d usr) of
             Inl e \<Rightarrow> ([], Inl e)
           | Inr c \<Rightarrow>
               (Saved (c_id c) #
                concat (map (\<lambda>agency.
                  fst (sendNotification delivers (Some (uid agency))
                    ''New Complaint Received''
                    (''A new '' @ d_category d @ '' complaint has been submitted: '' @
                     complaintId c)))
                  (notification_audience users (d_category d))),
                Inr c)))"

definition createComplaint ::
  "(notification \<Rightarrow> bool) \<Rightarrow> user list \<Rightarrow> date \<Rightarrow> complaint list \<Rightarrow> complaint_data \<Rightarrow> user \<Rightarrow>
     (error + complaint) \<times> complaint list \<times> event list" where
  "createComplaint delivers users now store d usr =
     transact store (createComplaint_body delivers users now store d usr)"

section \<open>Routes and controllers\<close>

text \<open>
  A response: the HTTP status, with the document for 200 and 201 and the thrown
  error for 500.
\<close>

datatype response =
    Status200 complaint
  | Status201 complaint
  | Status400 string
  | Status403
  | Status500 error


text \<open>The validators of \<open>router.post("/")\<close>.\<close>

definition create_validators_pass :: "complaint_data \<Rightarrow> bool" where
  "create_validators_pass d \<longleftrightarrow>
     d_resourceId d \<noteq> None \<and>
     d_category d \<in> set [''Electrical'', ''Civil'', ''Misc''] \<and>
     d_subcategory d \<noteq> [] \<and>
     d_description d \<noteq> [] \<and> length (d_description d) \<le> 1000 \<and>
     (case d_images d of None \<Rightarrow> True | Some xs \<Rightarrow> length xs \<le> 2)"

definition to_response ::
  "(complaint \<Rightarrow> response) \<Rightarrow> (error + complaint) \<times> complaint list \<times> event list \<Rightarrow>
     response \<times> complaint list \<times> event list" where
  "to_response ok r =
     (case fst r of Inl e \<Rightarrow> (Status500 e, snd r) | Inr c \<Rightarrow> (ok c, snd r))"

text \<open>\<open>POST /api/complaints\<close>: the validators, then the controller.\<close>

definition createComplaint_handler ::
  "(notification \<Rightarrow> bool) \<Rightarrow> user list \<Rightarrow> date \<Rightarrow> complaint list \<Rightarrow> complaint_data \<Rightarrow> user \<Rightarrow>
     response \<times> complaint list \<times> event list" where
  "createComplaint_handler delivers users now store body usr =
     (if create_validators_pass body
      then
        (case d_images body of
           None \<Rightarrow> to_response Status201 (createComplaint delivers users now store body usr)
         | Some xs \<Rightarrow>
             if length xs > 2
             then (Status400 ''Maximum 2 images allowed per complaint'', store, [])
             else to_response Status201 (createComplaint delivers users now store body usr))
      else (Status400 ''validation errors'', store, []))"


section \<open>Role-scoped queries\<close>

record query_params =
  q_userId :: "oid option"
  q_resourceId :: "oid option"
  q_category :: "string option"
  q_status :: "string option"
  q_dateFrom :: "date option"
  q_dateTo :: "date option"

record filters =
  f_userId :: "oid option"
  f_category :: "string option"
  f_assignedStaff :: "oid option"
  f_resourceId :: "oid option"
  f_status :: "string option"
  f_dateFrom :: "date option"
  f_dateTo :: "date option"

definition no_filters :: filters where
  "no_filters = \<lparr>f_userId = None, f_category = None, f_assignedStaff = None,
     f_resourceId = None, f_status = None, f_dateFrom = None, f_dateTo = None\<rparr>"

text \<open>The filters every controller adds after the role branch.\<close>

definition date_filters :: "query_params \<Rightarrow> filters \<Rightarrow> filters" where
  "date_filters q f =
     (case (q_dateFrom q, q_dateTo q) of
        (Some a, Some b) \<Rightarrow> f\<lparr>f_dateFrom := Some a, f_dateTo := Some b\<rparr>
      | _ \<Rightarrow> f)"

definition resource_filter :: "query_params \<Rightarrow> filters \<Rightarrow> filters" where
  "resource_filter q f = (case q_resourceId q of None \<Rightarrow> f | Some r \<Rightarrow> f\<lparr>f_resourceId := Some r\<rparr>)"

definition user_filter :: "query_params \<Rightarrow> filters \<Rightarrow> filters" where
  "user_filter q f = (case q_userId q of None \<Rightarrow> f | Some u \<Rightarrow> f\<lparr>f_userId := Some u\<rparr>)"

definition category_filter :: "query_params \<Rightarrow> filters \<Rightarrow> filters" where
  "category_filter q f = (if truthy (q_category q) then f\<lparr>f_category := q_category q\<rparr> else f)"

definition status_filter :: "query_params \<Rightarrow> filters \<Rightarrow> filters" where
  "status_filter q f = (if truthy (q_status q) then f\<lparr>f_status := q_status q\<rparr> else f)"

text \<open>The filters of the controller's \<open>getComplaints\<close>.\<close>

definition getComplaints_filters :: "user \<Rightarrow> query_params \<Rightarrow> filters" where
  "getComplaints_filters usr q =
     date_filters q (status_filter q (resource_filter q
       (if urole usr = ''resident'' then no_filters\<lparr>f_userId := Some (uid usr)\<rparr>
        else if urole usr = ''departmentAdmin''
          then (user_filter q no_filters)\<lparr>f_category := udepartment usr\<rparr>
        else if urole usr = ''maintenanceStaff''
          then no_filters\<lparr>f_assignedStaff := Some (uid usr)\<rparr>
        else category_filter q (user_filter q no_filters))))"

text \<open>The filters of the controller's \<open>getComplaintStats\<close>.\<close>

definition getComplaintStats_filters :: "user \<Rightarrow> query_params \<Rightarrow> filters" where
  "getComplaintStats_filters usr q =
     date_filters q (resource_filter q
       (if urole usr = ''departmentAdmin''
          then user_filter q (no_filters\<lparr>f_category := udepartment usr\<rparr>)
        else if urole usr = ''resident'' then no_filters\<lparr>f_userId := Some (uid usr)\<rparr>
        else category_filter q (user_filter q no_filters)))"

text \<open>The filters of the controller's \<open>getCategoryDistribution\<close>.\<close>

definition getCategoryDistribution_filters :: "user \<Rightarrow> query_params \<Rightarrow> filters" where
  "getCategoryDistribution_filters usr q =
     date_filters q (resource_filter q
       (if urole usr = ''resident'' then no_filters\<lparr>f_userId := Some (uid usr)\<rparr>
        else user_filter q no_filters))"

text \<open>The conditions the services turn the filters into.\<close>

definition id_matches :: "oid option \<Rightarrow> oid \<Rightarrow> bool" where
  "id_matches f v = (case f of None \<Rightarrow> True | Some x \<Rightarrow> v = x)"

definition str_matches :: "string option \<Rightarrow> string \<Rightarrow> bool" where
  "str_matches f v = (if truthy f then f = Some v else True)"

definition range_matches :: "date option \<Rightarrow> date option \<Rightarrow> date \<Rightarrow> bool" where
  "range_matches a b d =
     (case (a, b) of (Some lo, Some hi) \<Rightarrow> date_le lo d \<and> date_le d hi | _ \<Rightarrow> True)"

text \<open>
  The values a sort compares, and their order: a sort puts values of different types
  in the order null, numbers, strings, object ids, dates; strings compare by their
  characters' codes.
\<close>

datatype bson = BNull | BNum int | BStr string | BObjectId oid | BDate date

fun bson_rank :: "bson \<Rightarrow> nat" where
  "bson_rank BNull = 0"
| "bson_rank (BNum n) = 1"
| "bson_rank (BStr s) = 2"
| "bson_rank (BObjectId i) = 3"
| "bson_rank (BDate d) = 4"

fun str_le :: "string \<Rightarrow> string \<Rightarrow> bool" where
  "str_le [] ys = True"
| "str_le (x # xs) [] = False"
| "str_le (x # xs) (y # ys) =
     ((of_char x :: nat) < of_char y \<or> (x = y \<and> str_le xs ys))"

fun bson_le :: "bson \<Rightarrow> bson \<Rightarrow> bool" where
  "bson_le (BNum a) (BNum b) = (a \<le> b)"
| "bson_le (BStr a) (BStr b) = str_le a b"
| "bson_le (BObjectId a) (BObjectId b) = (a \<le> b)"
| "bson_le (BDate a) (BDate b) = date_le a b"
| "bson_le a b = (bson_rank a \<le> bson_rank b)"

text \<open>
  The paths of the schema that hold one value; a path that is not set sorts as null.
  Sorting by the array paths \<open>images\<close> and \<open>history\<close> is outside this type.
\<close>

datatype sort_path =
    By_id | By_complaintId | By_userId | By_resourceId | By_category | By_subcategory
  | By_description | By_status | By_assignedAgency | By_assignedStaff | By_assignedAt
  | By_resolvedAt | By_closedAt | By_feedback_rating | By_feedback_comment
  | By_feedback_submittedAt | By_escalation_escalatedAt | By_escalation_reason
  | By_escalation_appellateAuthority | By_escalation_finalResolution
  | By_escalation_finalResolvedAt | By_resolutionNotes | By_createdAt | By_updatedAt

definition or_null :: "('a \<Rightarrow> bson) \<Rightarrow> 'a option \<Rightarrow> bson" where
  "or_null f v = (case v of None \<Rightarrow> BNull | Some x \<Rightarrow> f x)"

fun sort_key :: "sort_path \<Rightarrow> complaint \<Rightarrow> bson" where
  "sort_key By_id c = BObjectId (c_id c)"
| "sort_key By_complaintId c = BStr (complaintId c)"
| "sort_key By_userId c = BObjectId (userId c)"
| "sort_key By_resourceId c = BObjectId (resourceId c)"
| "sort_key By_category c = BStr (category c)"
| "sort_key By_subcategory c = BStr (subcategory c)"
| "sort_key By_description c = BStr (description c)"
| "sort_key By_status c = BStr (status_name (status c))"
| "sort_key By_assignedAgency c = or_null BObjectId (assignedAgency c)"
| "sort_key By_assignedStaff c = or_null BObjectId (assignedStaff c)"
| "sort_key By_assignedAt c = or_null BDate (assignedAt c)"
| "sort_key By_resolvedAt c = or_null BDate (resolvedAt c)"
| "sort_key By_closedAt c = or_null BDate (closedAt c)"
| "sort_key By_feedback_rating c = or_null BNum (rating (feedback c))"
| "sort_key By_feedback_comment c = or_null BStr (comment (feedback c))"
| "sort_key By_feedback_submittedAt c = or_null BDate (submittedAt (feedback c))"
| "sort_key By_escalation_escalatedAt c = or_null BDate (escalatedAt (escalation c))"
| "sort_key By_escalation_reason c = or_null BStr (reason (escalation c))"
| "sort_key By_escalation_appellateAuthority c =
     or_null BObjectId (appellateAuthority (escalation c))"
| "sort_key By_escalation_finalResolution c =
     or_null BStr (finalResolutionText (escalation c))"
| "sort_key By_escalation_finalResolvedAt c = or_null BDate (finalResolvedAt (escalation c))"
| "sort_key By_resolutionNotes c = or_null BStr (resolutionNotes c)"
| "sort_key By_createdAt c = BDate (createdAt c)"
| "sort_key By_updatedAt c = BDate (updatedAt c)"

text \<open>The sort order: 1 is ascending, -1 descending.\<close>

datatype sort_dir = Ascending | Descending

definition sort_le :: "sort_path \<Rightarrow> sort_dir \<Rightarrow> complaint \<Rightarrow> complaint \<Rightarrow> bool" where
  "sort_le p dir a b =
     (case dir of
        Ascending \<Rightarrow> bson_le (sort_key p a) (sort_key p b)
      | Descending \<Rightarrow> bson_le (sort_key p b) (sort_key p a))"

text \<open>The sort itself, by insertion; documents that compare equal keep the store's order.\<close>

fun insert_sorted :: "('a \<Rightarrow> 'a \<Rightarrow> bool) \<Rightarrow> 'a \<Rightarrow> 'a list \<Rightarrow> 'a list" where
  "insert_sorted le x [] = [x]"
| "insert_sorted le x (y # ys) = (if le x y then x # y # ys else y # insert_sorted le x ys)"

definition sort_docs :: "('a \<Rightarrow> 'a \<Rightarrow> bool) \<Rightarrow> 'a list \<Rightarrow> 'a list" where
  "sort_docs le xs = foldr (insert_sorted le) xs []"

text \<open>
  The service's \<open>getComplaints\<close>: the documents the query matches, sorted by
  \<open>{[sortField]: sortOrder}\<close>, the page of them that \<open>paginate\<close> returns, and
  \<open>totalDocs\<close>. \<open>filters.assignedStaff\<close> is not read.
\<close>

definition getComplaints_query :: "filters \<Rightarrow> complaint \<Rightarrow> bool" where
  "getComplaints_query f c \<longleftrightarrow>
     id_matches (f_userId f) (userId c) \<and> str_matches (f_category f) (category c) \<and>
     str_matches (f_status f) (status_name (status c)) \<and>
     id_matches (f_resourceId f) (resourceId c) \<and>
     range_matches (f_dateFrom f) (f_dateTo f) (createdAt c)"

definition getComplaints ::
  "filters \<Rightarrow> nat \<Rightarrow> nat \<Rightarrow> sort_path \<Rightarrow> sort_dir \<Rightarrow> complaint list \<Rightarrow>
     complaint list \<times> nat" where
  "getComplaints f page limit sortField sortOrder store =
     (let hits = filter (getComplaints_query f) store;
          sorted = sort_docs (sort_le sortField sortOrder) hits
      in (take limit (drop ((page - 1) * limit) sorted), length hits))"

text \<open>
  The controller's call of it: page 1, limit 10, \<open>createdAt\<close> and descending where
  the request names none.
\<close>

definition getComplaints_handler ::
  "user \<Rightarrow> query_params \<Rightarrow> nat option \<Rightarrow> nat option \<Rightarrow> sort_path option \<Rightarrow> sort_dir option \<Rightarrow>
     complaint list \<Rightarrow> complaint list \<times> nat" where
  "getComplaints_handler usr q page limit sortField sortOrder store =
     getComplaints (getComplaints_filters usr q)
       (case page of None \<Rightarrow> 1 | Some p \<Rightarrow> p)
       (case limit of None \<Rightarrow> 10 | Some l \<Rightarrow> l)
       (case sortField of None \<Rightarrow> By_createdAt | Some p \<Rightarrow> p)
       (case sortOrder of None \<Rightarrow> Descending | Some d \<Rightarrow> d)
       store"

record stats =
  total :: nat
  n_pending :: nat
  n_assigned :: nat
  n_resolved :: nat
  n_closed :: nat
  n_escalated :: nat
  n_finalResolution :: nat
  ratings :: "int list"

definition getComplaintStats_match :: "filters \<Rightarrow> complaint \<Rightarrow> bool" where
  "getComplaintStats_match f c \<longleftrightarrow>
     id_matches (f_userId f) (userId c) \<and> str_matches (f_category f) (category c) \<and>
     id_matches (f_resourceId f) (resourceId c) \<and>
     range_matches (f_dateFrom f) (f_dateTo f) (createdAt c)"

definition count_status :: "cstatus \<Rightarrow> complaint list \<Rightarrow> nat" where
  "count_status s cs = length (filter (\<lambda>c. status c = s) cs)"

text \<open>
  The service's \<open>getComplaintStats\<close>. \<open>avgRating\<close> is the mean of \<open>ratings\<close>, the
  ratings of the matched documents that have one.
\<close>

definition getComplaintStats :: "filters \<Rightarrow> complaint list \<Rightarrow> stats" where
  "getComplaintStats f store =
     (let hits = filter (getComplaintStats_match f) store
      in \<lparr>total = length hits, n_pending = count_status pending hits,
          n_assigned = count_status assigned hits, n_resolved = count_status resolved hits,
          n_closed = count_status closed hits, n_escalated = count_status escalated hits,
          n_finalResolution = count_status finalResolution hits,
          ratings = concat (map (\<lambda>c. case rating (feedback c) of None \<Rightarrow> [] | Some r \<Rightarrow> [r]) hits)\<rparr>)"

definition getCategoryDistribution_match :: "filters \<Rightarrow> complaint \<Rightarrow> bool" where
  "getCategoryDistribution_match f c \<longleftrightarrow>
     id_matches (f_userId f) (userId c) \<and> id_matches (f_resourceId f) (resourceId c) \<and>
     range_matches (f_dateFrom f) (f_dateTo f) (createdAt c)"

text \<open>The service's \<open>getCategoryDistribution\<close>: one row per category of a matched document.\<close>

definition getCategoryDistribution :: "filters \<Rightarrow> complaint list \<Rightarrow> (string \<times> nat) list" where
  "getCategoryDistribution f store =
     (let hits = filter (getCategoryDistribution_match f) store
      in map (\<lambda>k. (k, length (filter (\<lambda>c. category c = k) hits))) (remdups (map category hits)))"

section \<open>The service as a whole\<close>

text \<open>The state-changing functions the service exports.\<close>

datatype service_call =
    CreateComplaint complaint_data user
  | AssignComplaint oid oid oid
  | AssignToStaff oid oid oid
  | ResolveComplaint oid string oid
  | SubmitFeedback oid int "string option" oid
  | FinalizeComplaint oid string oid

fun run_call ::
  "(notification \<Rightarrow> bool) \<Rightarrow> user list \<Rightarrow> date \<Rightarrow> complaint list \<Rightarrow> service_call \<Rightarrow>
     (error + complaint) \<times> complaint list \<times> event list" where
  "run_call delivers users now store (CreateComplaint d usr) =
     createComplaint delivers users now store d usr"
| "run_call delivers users now store (AssignComplaint cid agencyId actor) =
     assignComplaint delivers users now store cid agencyId actor"
| "run_call delivers users now store (AssignToStaff cid staffId agencyId) =
     assignToStaff delivers users now store cid staffId agencyId"
| "run_call delivers users now store (ResolveComplaint cid n actor) =
     resolveComplaint delivers now store cid n actor"
| "run_call delivers users now store (SubmitFeedback cid r cm actor) =
     submitFeedback delivers users now store cid r cm actor"
| "run_call delivers users now store (FinalizeComplaint cid res authorityId) =
     finalizeComplaint delivers now store cid res authorityId"

text \<open>The statuses of the history of the document a call returned; none for an error.\<close>

definition history_statuses :: "error + complaint \<Rightarrow> cstatus list" where
  "history_statuses r = (case r of Inl e \<Rightarrow> [] | Inr c \<Rightarrow> map h_status (history c))"

definition is_resolved_entry :: "history_entry \<Rightarrow> bool" where
  "is_resolved_entry h \<longleftrightarrow> h_status h = resolved"

definition is_notification :: "event \<Rightarrow> bool" where
  "is_notification e = (case e of Delivered n \<Rightarrow> True | DeliveryLogged n \<Rightarrow> True | _ \<Rightarrow> False)"

definition is_saved :: "event \<Rightarrow> bool" where
  "is_saved e = (case e of Saved i \<Rightarrow> True | _ \<Rightarrow> False)"

text \<open>The events that belong between the start of a transaction and its end.\<close>

definition inside_tx :: "event \<Rightarrow> bool" where
  "inside_tx e \<longleftrightarrow> is_notification e \<or> is_saved e"

text \<open>The document \<open>c\<close> with the actor of its latest history entry replaced.\<close>

definition with_actor :: "oid \<Rightarrow> complaint \<Rightarrow> complaint" where
  "with_actor a c =
     (case rev (history c) of
        [] \<Rightarrow> c
      | h # hs \<Rightarrow> c\<lparr>history := rev hs @ [h\<lparr>updatedBy := a\<rparr>]\<rparr>)"

section \<open>Sample data\<close>

definition nov26 :: date where
  "nov26 = \<lparr>fullYear = 2026, monthIx = 10, offset = 5\<rparr>"

definition ann :: user where
  "ann = \<lparr>uid = 1, uname = ''Ann'', urole = ''resident'', udepartment = None,
     ustatus = ''approved''\<rparr>"


definition eve :: user where
  "eve = \<lparr>uid = 3, uname = ''Eve'', urole = ''departmentAdmin'',
     udepartment = Some ''Electrical'', ustatus = ''approved''\<rparr>"

definition sam :: user where
  "sam = \<lparr>uid = 4, uname = ''Sam'', urole = ''maintenanceStaff'',
     udepartment = Some ''Electrical'', ustatus = ''approved''\<rparr>"

definition root :: user where
  "root = \<lparr>uid = 5, uname = ''Root'', urole = ''superAdmin'', udepartment = None,
     ustatus = ''approved''\<rparr>"

text \<open>Ann's complaint about a leak, in a given status.\<close>

definition leak :: "cstatus \<Rightarrow> complaint" where
  "leak s =
     \<lparr>c_id = 10, complaintId = ''CMP-26-10-0001'', userId = 1, resourceId = 7,
      category = ''Civil'', subcategory = ''Plumbing'', description = ''leak'', images = [],
      status = s, assignedAgency = None, assignedStaff = None, assignedAt = None,
      resolvedAt = None, closedAt = None, feedback = no_feedback, escalation = no_escalation,
      resolutionNotes = None,
      history = [\<lparr>h_status = pending, updatedBy = 1,
                   timestamp = \<lparr>fullYear = 2026, monthIx = 9, offset = 0\<rparr>,
                   h_notes = ''Complaint submitted''\<rparr>],
      createdAt = \<lparr>fullYear = 2026, monthIx = 9, offset = 0\<rparr>,
      updatedAt = \<lparr>fullYear = 2026, monthIx = 9, offset = 0\<rparr>\<rparr>"

definition no_query :: query_params where
  "no_query = \<lparr>q_userId = None, q_resourceId = None, q_category = None, q_status = None,
     q_dateFrom = None, q_dateTo = None\<rparr>"

text \<open>A request body with a subcategory of the Civil set under the category Electrical.\<close>

definition mixed_body :: complaint_data where
  "mixed_body = \<lparr>d_resourceId = Some 7, d_category = ''Electrical'',
     d_subcategory = ''Plumbing'', d_description = ''no water'', d_images = None\<rparr>"

text \<open>A request body that meets every validator of the route.\<close>

definition lighting_body :: complaint_data where
  "lighting_body = \<lparr>d_resourceId = Some 7, d_category = ''Electrical'',
     d_subcategory = ''Lighting'', d_description = ''The light is not working'',
     d_images = None\<rparr>"

text \<open>A second complaint of Ann's, the first one created in November 2026.\<close>

definition nov_leak :: complaint where
  "nov_leak = (leak pending)\<lparr>c_id := 11, complaintId := ''CMP-26-11-0001'', createdAt := nov26\<rparr>"


definition all_on :: "notification \<Rightarrow> bool" where
  "all_on n = True"

section \<open>Basic facts\<close>

lemma findById_c_id: "findById store i = Some c \<Longrightarrow> c_id c = i"
  by (auto simp: findById_def find_Some_iff)

lemma findById_save_doc:
  "findById store i = Some c \<Longrightarrow> c_id c' = i \<Longrightarrow> findById (save_doc c' store) i = Some c'"
  unfolding findById_def save_doc_def
  by (induction store) (auto split: if_splits)

lemma on_save_old: "on_save now store c = c\<lparr>updatedAt := now\<rparr>"
  by (simp add: on_save_def pre_save_def)

lemma findById_leak: "findById [leak s] 10 = Some (leak s)"
  by (simp add: findById_def leak_def)

lemma find_root: "find (approved_with_role [''superAdmin'']) [ann, root] = Some root"
  by (simp add: approved_with_role_def ann_def root_def)


lemma c_id_le_max: "d \<in> set store \<Longrightarrow> c_id d \<le> foldr max (map c_id store) 0"
  by (induction store) auto

lemma fresh_oid_fresh: "findById store (fresh_oid store) = None"
proof -
  have "c_id d \<noteq> fresh_oid store" if "d \<in> set store" for d
    using c_id_le_max [OF that] by (simp add: fresh_oid_def)
  then show ?thesis
    by (auto simp add: findById_def find_None_iff)
qed

lemma save_new_unidentified: "complaintId doc = [] \<Longrightarrow>
    save_new now store doc = Inl (ValidationError ''Complaint validation failed'')"
  by (simp add: save_new_def schema_valid_def)

lemma createComplaint_fails:
  "createComplaint delivers users now store d usr =
     (Inl (ValidationError ''Complaint validation failed''), store,
      [StartTransaction, AbortTransaction])"
proof (cases "d_resourceId d")
  case None
  then show ?thesis
    by (simp add: createComplaint_def createComplaint_body_def transact_def)
next
  case (Some r)
  have "save_new now store (new_complaint now store r d usr) =
      Inl (ValidationError ''Complaint validation failed'')"
    by (rule save_new_unidentified) (simp add: new_complaint_def)
  with Some show ?thesis
    by (simp add: createComplaint_def createComplaint_body_def transact_def)
qed

lemma next_id_first: "next_complaintId nov26 [] = ''CMP-26-11-0001''"
  by code_simp

section \<open>Resolving\<close>

text \<open>
  C4, as the code has it. \<open>resolveComplaint\<close> on a stored complaint succeeds only
  from \<open>assigned\<close>: it then sets the status to \<open>resolved\<close>, \<open>resolvedAt\<close> and
  \<open>resolutionNotes\<close> and appends one history entry, changes nothing else but
  \<open>updatedAt\<close>, and notifies the reporter before the commit. From any other status
  it throws the invalid-state error and the store is as before. So of two calls in a row on
  the same complaint the first succeeds and the second, with whatever arguments,
  fails and changes nothing, and the two calls together add exactly one \<open>resolved\<close>
  entry to the history.
\<close>

theorem resolve_only_from_assigned:
  assumes "findById store cid = Some c"
  shows "(status c \<noteq> assigned \<longrightarrow>
            resolveComplaint delivers now store cid n actor =
              (Inl (InvalidState ''Complaint must be in assigned status to be resolved''),
               store, [StartTransaction, AbortTransaction])) \<and>
         (status c = assigned \<longrightarrow>
            (\<exists>c'. fst (resolveComplaint delivers now store cid n actor) = Inr c' \<and>
                  fst (snd (resolveComplaint delivers now store cid n actor)) = save_doc c' store \<and>
                  findById (save_doc c' store) cid = Some c' \<and>
                  status c' = resolved \<and> resolvedAt c' = Some now \<and>
                  resolutionNotes c' = Some n \<and>
                  history c' = history c @
                    [\<lparr>h_status = resolved, updatedBy = actor, timestamp = now, h_notes = n\<rparr>] \<and>
                  c' = c\<lparr>status := resolved, resolvedAt := Some now,
                         resolutionNotes := Some n,
                         history := history c @
                           [\<lparr>h_status = resolved, updatedBy = actor, timestamp = now,
                             h_notes = n\<rparr>],
                         updatedAt := now\<rparr> \<and>
                  snd (snd (resolveComplaint delivers now store cid n actor)) =
                    StartTransaction # Saved cid #
                    fst (sendNotification delivers (Some (userId c)) ''Complaint Resolved''
                      (''Your complaint '' @ complaintId c @
                       '' has been resolved. Please provide feedback.'')) @
                    [CommitTransaction] \<and>
                  (\<forall>delivers' now' n' actor'.
                     resolveComplaint delivers' now' (save_doc c' store) cid n' actor' =
                       (Inl (InvalidState ''Complaint must be in assigned status to be resolved''),
                        save_doc c' store, [StartTransaction, AbortTransaction])) \<and>
                  length (filter is_resolved_entry (history c')) =
                    Suc (length (filter is_resolved_entry (history c)))))"
proof (intro conjI impI)
  assume "status c \<noteq> assigned"
  with assms show "resolveComplaint delivers now store cid n actor =
      (Inl (InvalidState ''Complaint must be in assigned status to be resolved''),
       store, [StartTransaction, AbortTransaction])"
    by (simp add: resolveComplaint_def resolveComplaint_body_def transact_def)
next
  assume a: "status c = assigned"
  define c' where "c' = c\<lparr>status := resolved, resolvedAt := Some now,
      resolutionNotes := Some n,
      history := history c @
        [\<lparr>h_status = resolved, updatedBy = actor, timestamp = now, h_notes = n\<rparr>],
      updatedAt := now\<rparr>"
  have id: "c_id c = cid" using assms by (rule findById_c_id)
  have id': "c_id c' = cid" using id by (simp add: c'_def)
  have found: "findById (save_doc c' store) cid = Some c'"
    using assms id' by (rule findById_save_doc)
  have st: "status c' = resolved" by (simp add: c'_def)
  have run: "resolveComplaint delivers now store cid n actor =
      (Inr c', save_doc c' store,
       StartTransaction # Saved cid #
       fst (sendNotification delivers (Some (userId c)) ''Complaint Resolved''
         (''Your complaint '' @ complaintId c @
          '' has been resolved. Please provide feedback.'')) @
       [CommitTransaction])"
    using assms a id
    by (simp add: resolveComplaint_def resolveComplaint_body_def transact_def Let_def
        push_history_def c'_def on_save_old)
  have again: "resolveComplaint delivers' now' (save_doc c' store) cid n' actor' =
      (Inl (InvalidState ''Complaint must be in assigned status to be resolved''),
       save_doc c' store, [StartTransaction, AbortTransaction])"
    for delivers' now' n' actor'
    using found st
    by (simp add: resolveComplaint_def resolveComplaint_body_def transact_def)
  show "\<exists>c'. fst (resolveComplaint delivers now store cid n actor) = Inr c' \<and>
      fst (snd (resolveComplaint delivers now store cid n actor)) = save_doc c' store \<and>
      findById (save_doc c' store) cid = Some c' \<and>
      status c' = resolved \<and> resolvedAt c' = Some now \<and>
      resolutionNotes c' = Some n \<and>
      history c' = history c @
        [\<lparr>h_status = resolved, updatedBy = actor, timestamp = now, h_notes = n\<rparr>] \<and>
      c' = c\<lparr>status := resolved, resolvedAt := Some now,
             resolutionNotes := Some n,
             history := history c @
               [\<lparr>h_status = resolved, updatedBy = actor, timestamp = now,
                 h_notes = n\<rparr>],
             updatedAt := now\<rparr> \<and>
      snd (snd (resolveComplaint delivers now store cid n actor)) =
        StartTransaction # Saved cid #
        fst (sendNotification delivers (Some (userId c)) ''Complaint Resolved''
          (''Your complaint '' @ complaintId c @
           '' has been resolved. Please provide feedback.'')) @
        [CommitTransaction] \<and>
      (\<forall>delivers' now' n' actor'.
         resolveComplaint delivers' now' (save_doc c' store) cid n' actor' =
           (Inl (InvalidState ''Complaint must be in assigned status to be resolved''),
            save_doc c' store, [StartTransaction, AbortTransaction])) \<and>
      length (filter is_resolved_entry (history c')) =
        Suc (length (filter is_resolved_entry (history c)))"
  proof (intro exI [of _ c'] conjI)
    show "\<forall>delivers' now' n' actor'.
         resolveComplaint delivers' now' (save_doc c' store) cid n' actor' =
           (Inl (InvalidState ''Complaint must be in assigned status to be resolved''),
            save_doc c' store, [StartTransaction, AbortTransaction])"
      using again by blast
  qed (simp_all add: run found, simp_all add: c'_def is_resolved_entry_def)
qed

text \<open>
  The theorem at Ann's complaint in status \<open>assigned\<close>: the first call resolves it,
  and its history, which had no \<open>resolved\<close> entry, has exactly one afterwards.
\<close>

theorem resolve_only_from_assigned_witness:
  "findById [leak assigned] 10 = Some (leak assigned) \<and> status (leak assigned) = assigned \<and>
   (\<exists>c'. fst (resolveComplaint all_on nov26 [leak assigned] 10 ''fixed'' 4) = Inr c' \<and>
         status c' = resolved \<and>
         length (filter is_resolved_entry (history c')) = 1 \<and>
         fst (resolveComplaint all_on nov26 (save_doc c' [leak assigned]) 10 ''again'' 4) =
           Inl (InvalidState ''Complaint must be in assigned status to be resolved''))"
proof -
  have st: "status (leak assigned) = assigned"
    by (simp add: leak_def)
  have none: "length (filter is_resolved_entry (history (leak assigned))) = 0"
    by (simp add: leak_def is_resolved_entry_def)
  from resolve_only_from_assigned [OF findById_leak, of assigned all_on nov26 "''fixed''" 4] st
  obtain c' where c':
    "fst (resolveComplaint all_on nov26 [leak assigned] 10 ''fixed'' 4) = Inr c'"
    "status c' = resolved"
    "\<forall>delivers' now' n' actor'.
       resolveComplaint delivers' now' (save_doc c' [leak assigned]) 10 n' actor' =
         (Inl (InvalidState ''Complaint must be in assigned status to be resolved''),
          save_doc c' [leak assigned], [StartTransaction, AbortTransaction])"
    "length (filter is_resolved_entry (history c')) =
       Suc (length (filter is_resolved_entry (history (leak assigned))))"
    by blast
  from c'(3) have "fst (resolveComplaint all_on nov26 (save_doc c' [leak assigned]) 10 ''again'' 4) =
      Inl (InvalidState ''Complaint must be in assigned status to be resolved'')"
    by simp
  with c'(1,2,4) none st findById_leak show ?thesis
    by auto
qed

text \<open>
  C4 as stated fails when another call comes between the two: after the first
  resolve an assignment puts the complaint back to \<open>assigned\<close>, the second resolve
  succeeds as well, and the history holds two \<open>resolved\<close> entries.
\<close>

theorem resolve_again_after_assign_counterexample:
  "history_statuses (fst (resolveComplaint all_on nov26 [leak assigned] 10 ''fixed'' 4)) =
     [pending, resolved] \<and>
   history_statuses
     (fst (assignComplaint all_on [eve, sam] nov26
        (fst (snd (resolveComplaint all_on nov26 [leak assigned] 10 ''fixed'' 4))) 10 3 5)) =
     [pending, resolved, assigned] \<and>
   history_statuses
     (fst (resolveComplaint all_on nov26
        (fst (snd (assignComplaint all_on [eve, sam] nov26
           (fst (snd (resolveComplaint all_on nov26 [leak assigned] 10 ''fixed'' 4))) 10 3 5)))
        10 ''fixed again'' 4)) =
     [pending, resolved, assigned, resolved]"
  by (simp add: history_statuses_def resolveComplaint_def resolveComplaint_body_def
      assignComplaint_def assignComplaint_body_def transact_def Let_def findById_def
      save_doc_def approved_with_role_def eve_def sam_def push_history_def on_save_old
      leak_def)

section \<open>Final resolution\<close>

text \<open>
  C5. \<open>finalizeComplaint\<close> on a stored complaint succeeds only from \<open>escalated\<close>:
  it then sets the status to \<open>finalResolution\<close>, records
  \<open>escalation.finalResolution\<close>, \<open>escalation.finalResolvedAt\<close> and \<open>closedAt\<close>, and
  appends one history entry. From any other status it throws the invalid-state
  error, and the store is as before.
\<close>

theorem finalize_only_from_escalated:
  assumes "findById store cid = Some c"
  shows "(status c \<noteq> escalated \<longrightarrow>
            finalizeComplaint delivers now store cid res authorityId =
              (Inl (InvalidState ''Only escalated complaints can receive final resolution''),
               store, [StartTransaction, AbortTransaction])) \<and>
         (status c = escalated \<longrightarrow>
            (\<exists>c'. fst (finalizeComplaint delivers now store cid res authorityId) = Inr c' \<and>
                  fst (snd (finalizeComplaint delivers now store cid res authorityId)) =
                    save_doc c' store \<and>
                  findById (save_doc c' store) cid = Some c' \<and>
                  status c' = finalResolution \<and>
                  finalResolutionText (escalation c') = Some res \<and>
                  finalResolvedAt (escalation c') = Some now \<and>
                  closedAt c' = Some now \<and>
                  history c' = history c @
                    [\<lparr>h_status = finalResolution, updatedBy = authorityId, timestamp = now,
                      h_notes = ''Final resolution: '' @ res\<rparr>]))"
proof (intro conjI impI)
  assume "status c \<noteq> escalated"
  with assms show "finalizeComplaint delivers now store cid res authorityId =
      (Inl (InvalidState ''Only escalated complaints can receive final resolution''),
       store, [StartTransaction, AbortTransaction])"
    by (simp add: finalizeComplaint_def finalizeComplaint_body_def transact_def)
next
  assume a: "status c = escalated"
  define c' where "c' = c\<lparr>status := finalResolution,
      escalation := (escalation c)\<lparr>finalResolutionText := Some res,
                                  finalResolvedAt := Some now\<rparr>,
      closedAt := Some now,
      history := history c @
        [\<lparr>h_status = finalResolution, updatedBy = authorityId, timestamp = now,
          h_notes = ''Final resolution: '' @ res\<rparr>],
      updatedAt := now\<rparr>"
  have id: "c_id c = cid" using assms by (rule findById_c_id)
  have id': "c_id c' = cid" using id by (simp add: c'_def)
  have found: "findById (save_doc c' store) cid = Some c'"
    using assms id' by (rule findById_save_doc)
  have run: "fst (finalizeComplaint delivers now store cid res authorityId) = Inr c'"
    "fst (snd (finalizeComplaint delivers now store cid res authorityId)) = save_doc c' store"
    using assms a id
    by (simp_all add: finalizeComplaint_def finalizeComplaint_body_def transact_def Let_def
        push_history_def c'_def on_save_old)
  show "\<exists>c'. fst (finalizeComplaint delivers now store cid res authorityId) = Inr c' \<and>
      fst (snd (finalizeComplaint delivers now store cid res authorityId)) = save_doc c' store \<and>
      findById (save_doc c' store) cid = Some c' \<and>
      status c' = finalResolution \<and>
      finalResolutionText (escalation c') = Some res \<and>
      finalResolvedAt (escalation c') = Some now \<and>
      closedAt c' = Some now \<and>
      history c' = history c @
        [\<lparr>h_status = finalResolution, updatedBy = authorityId, timestamp = now,
          h_notes = ''Final resolution: '' @ res\<rparr>]"
    by (intro exI [of _ c'] conjI) (simp_all add: run found, simp_all add: c'_def)
qed

text \<open>
  The theorem at Ann's complaint: in status \<open>pending\<close> the call fails and the store
  is untouched, in status \<open>escalated\<close> it succeeds.
\<close>

theorem finalize_only_from_escalated_witness:
  "findById [leak pending] 10 = Some (leak pending) \<and>
   finalizeComplaint all_on nov26 [leak pending] 10 ''repaired'' 5 =
     (Inl (InvalidState ''Only escalated complaints can receive final resolution''),
      [leak pending], [StartTransaction, AbortTransaction]) \<and>
   findById [leak escalated] 10 = Some (leak escalated) \<and>
   (\<exists>c'. fst (finalizeComplaint all_on nov26 [leak escalated] 10 ''repaired'' 5) = Inr c' \<and>
         status c' = finalResolution \<and> closedAt c' = Some nov26 \<and>
         finalResolutionText (escalation c') = Some ''repaired'' \<and>
         length (history c') = 2)"
proof -
  have p: "status (leak pending) \<noteq> escalated" and e: "status (leak escalated) = escalated"
    and h: "length (history (leak escalated)) = 1"
    by (simp_all add: leak_def)
  from finalize_only_from_escalated [OF findById_leak, of pending all_on nov26 "''repaired''" 5] p
  have 1: "finalizeComplaint all_on nov26 [leak pending] 10 ''repaired'' 5 =
     (Inl (InvalidState ''Only escalated complaints can receive final resolution''),
      [leak pending], [StartTransaction, AbortTransaction])"
    by blast
  from finalize_only_from_escalated [OF findById_leak, of escalated all_on nov26 "''repaired''" 5] e
  obtain c' where "fst (finalizeComplaint all_on nov26 [leak escalated] 10 ''repaired'' 5) = Inr c'"
    "status c' = finalResolution" "closedAt c' = Some nov26"
    "finalResolutionText (escalation c') = Some ''repaired''"
    "history c' = history (leak escalated) @
       [\<lparr>h_status = finalResolution, updatedBy = 5, timestamp = nov26,
         h_notes = ''Final resolution: '' @ ''repaired''\<rparr>]"
    by blast
  with 1 h findById_leak show ?thesis by auto
qed

section \<open>Feedback\<close>

text \<open>
  C1, as the code has it. On a stored complaint in status \<open>resolved\<close>, with a rating
  from 1 to 5, \<open>submitFeedback\<close> succeeds and records the feedback. With a rating of
  3 or more the complaint is \<open>closed\<close> and \<open>closedAt\<close> is set. With a rating below 3
  it is \<open>escalated\<close>; \<open>escalation.reason\<close> is the comment when that is non-empty and
  the default text otherwise; \<open>escalation.appellateAuthority\<close> is the first approved
  super admin when there is one, and stays unset when there is none.
\<close>

theorem feedback_threshold:
  assumes "findById store cid = Some c" and "status c = resolved" and "1 \<le> r" and "r \<le> 5"
  shows "\<exists>c'. fst (submitFeedback delivers users now store cid r cm actor) = Inr c' \<and>
           fst (snd (submitFeedback delivers users now store cid r cm actor)) = save_doc c' store \<and>
           findById (save_doc c' store) cid = Some c' \<and>
           rating (feedback c') = Some r \<and> comment (feedback c') = cm \<and>
           (if 3 \<le> r
            then status c' = closed \<and> closedAt c' = Some now
            else status c' = escalated \<and>
                 reason (escalation c') =
                   Some (case cm of
                           None \<Rightarrow> ''User not satisfied with resolution''
                         | Some s \<Rightarrow> if s = [] then ''User not satisfied with resolution'' else s) \<and>
                 appellateAuthority (escalation c') =
                   map_option uid (find (approved_with_role [''superAdmin'']) users))"
proof -
  have id: "c_id c = cid" using assms(1) by (rule findById_c_id)
  define c1 where "c1 = c\<lparr>feedback := \<lparr>rating = Some r, comment = cm, submittedAt = Some now\<rparr>\<rparr>"
  define b where "b = (if 3 \<le> r then feedback_close delivers now actor r cm c1
                       else feedback_escalate delivers users now actor r cm c1)"
  define c' where "c' = (fst b)\<lparr>updatedAt := now\<rparr>"
  have run: "submitFeedback delivers users now store cid r cm actor =
      (Inr c', save_doc c' store,
       StartTransaction # (snd b @ [Saved (c_id (fst b))]) @ [CommitTransaction])"
    using assms
    by (simp add: submitFeedback_def submitFeedback_body_def transact_def Let_def
        on_save_old c'_def b_def c1_def)
  have hi: "3 \<le> r \<Longrightarrow> c' = c1\<lparr>status := closed, closedAt := Some now,
      history := history c1 @ [\<lparr>h_status = closed, updatedBy = actor, timestamp = now,
         h_notes = feedback_note ''User satisfied with resolution.'' r cm\<rparr>],
      updatedAt := now\<rparr>"
    by (simp add: c'_def b_def feedback_close_def push_history_def)
  have lo: "\<not> 3 \<le> r \<Longrightarrow> c' = c1\<lparr>status := escalated,
      escalation := \<lparr>escalatedAt = Some now,
                      reason = Some (or_else cm ''User not satisfied with resolution''),
                      appellateAuthority =
                        map_option uid (find (approved_with_role [''superAdmin'']) users),
                      finalResolutionText = None, finalResolvedAt = None\<rparr>,
      history := history c1 @ [\<lparr>h_status = escalated, updatedBy = actor, timestamp = now,
         h_notes = feedback_note ''User not satisfied with resolution.'' r cm\<rparr>],
      updatedAt := now\<rparr>"
    by (simp add: c'_def b_def feedback_escalate_def push_history_def Let_def no_escalation_def
        split: option.splits)
  have id': "c_id c' = cid"
    using hi lo id by (cases "3 \<le> r") (simp_all add: c1_def)
  have found: "findById (save_doc c' store) cid = Some c'"
    using assms(1) id' by (rule findById_save_doc)
  have oe: "or_else cm d = (case cm of None \<Rightarrow> d | Some s \<Rightarrow> if s = [] then d else s)" for d
    by (cases cm) simp_all
  show ?thesis
  proof (cases "3 \<le> r")
    case True
    with hi have "c' = c1\<lparr>status := closed, closedAt := Some now,
      history := history c1 @ [\<lparr>h_status = closed, updatedBy = actor, timestamp = now,
         h_notes = feedback_note ''User satisfied with resolution.'' r cm\<rparr>],
      updatedAt := now\<rparr>" by simp
    then show ?thesis
      using True found by (intro exI [of _ c']) (simp add: run c1_def)
  next
    case False
    with lo have "c' = c1\<lparr>status := escalated,
      escalation := \<lparr>escalatedAt = Some now,
                      reason = Some (or_else cm ''User not satisfied with resolution''),
                      appellateAuthority =
                        map_option uid (find (approved_with_role [''superAdmin'']) users),
                      finalResolutionText = None, finalResolvedAt = None\<rparr>,
      history := history c1 @ [\<lparr>h_status = escalated, updatedBy = actor, timestamp = now,
         h_notes = feedback_note ''User not satisfied with resolution.'' r cm\<rparr>],
      updatedAt := now\<rparr>" by simp
    then show ?thesis
      using False found by (intro exI [of _ c']) (simp add: run c1_def oe)
  qed
qed


text \<open>
  The theorem at Ann's resolved complaint with Root as the approved super admin: the
  boundary rating 3 closes; rating 2 with an empty comment escalates with the default
  reason and Root as the appellate authority.
\<close>

theorem feedback_threshold_witness:
  "findById [leak resolved] 10 = Some (leak resolved) \<and> status (leak resolved) = resolved \<and>
   (\<exists>c'. fst (submitFeedback all_on [ann, root] nov26 [leak resolved] 10 3 None 1) = Inr c' \<and>
         status c' = closed \<and> closedAt c' = Some nov26) \<and>
   (\<exists>c'. fst (submitFeedback all_on [ann, root] nov26 [leak resolved] 10 2 (Some []) 1) = Inr c' \<and>
         status c' = escalated \<and>
         reason (escalation c') = Some ''User not satisfied with resolution'' \<and>
         appellateAuthority (escalation c') = Some 5)"
proof -
  have st: "status (leak resolved) = resolved"
    by (simp add: leak_def)
  have r5: "uid root = 5"
    by (simp add: root_def)
  from feedback_threshold [OF findById_leak st, where r = 3 and delivers = all_on
      and users = "[ann, root]" and now = nov26 and cm = None and actor = 1]
  obtain c3 where c3: "fst (submitFeedback all_on [ann, root] nov26 [leak resolved] 10 3 None 1) = Inr c3"
    "if (3::int) \<le> 3 then status c3 = closed \<and> closedAt c3 = Some nov26
     else status c3 = escalated \<and>
          reason (escalation c3) =
            Some (case None of
                    None \<Rightarrow> ''User not satisfied with resolution''
                  | Some s \<Rightarrow> if s = [] then ''User not satisfied with resolution'' else s) \<and>
          appellateAuthority (escalation c3) =
            map_option uid (find (approved_with_role [''superAdmin'']) [ann, root])"
    by auto
  from c3(2) have "status c3 = closed \<and> closedAt c3 = Some nov26"
    by simp
  with c3(1)
  have 1: "\<exists>c'. fst (submitFeedback all_on [ann, root] nov26 [leak resolved] 10 3 None 1) = Inr c' \<and>
         status c' = closed \<and> closedAt c' = Some nov26"
    by blast
  from feedback_threshold [OF findById_leak st, where r = 2 and delivers = all_on
      and users = "[ann, root]" and now = nov26 and cm = "Some []" and actor = 1]
  obtain c2 where c2: "fst (submitFeedback all_on [ann, root] nov26 [leak resolved] 10 2 (Some []) 1) = Inr c2"
    "if (3::int) \<le> 2 then status c2 = closed \<and> closedAt c2 = Some nov26
     else status c2 = escalated \<and>
          reason (escalation c2) =
            Some (case Some [] of
                    None \<Rightarrow> ''User not satisfied with resolution''
                  | Some s \<Rightarrow> if s = [] then ''User not satisfied with resolution'' else s) \<and>
          appellateAuthority (escalation c2) =
            map_option uid (find (approved_with_role [''superAdmin'']) [ann, root])"
    by auto
  from c2(2) have "status c2 = escalated \<and>
         reason (escalation c2) = Some ''User not satisfied with resolution'' \<and>
         appellateAuthority (escalation c2) = Some 5"
    unfolding find_root by (simp add: r5)
  with c2(1)
  have 2: "\<exists>c'. fst (submitFeedback all_on [ann, root] nov26 [leak resolved] 10 2 (Some []) 1) = Inr c' \<and>
         status c' = escalated \<and>
         reason (escalation c') = Some ''User not satisfied with resolution'' \<and>
         appellateAuthority (escalation c') = Some 5"
    by blast
  from 1 2 st findById_leak show ?thesis by blast
qed

text \<open>
  C1 as stated fails where no super admin is approved: among Ann and Eve the lookup
  finds nobody, the complaint is escalated all the same, and
  \<open>escalation.appellateAuthority\<close> is not set.
\<close>

theorem feedback_no_authority_counterexample:
  "find (approved_with_role [''superAdmin'']) [ann, eve] = None \<and>
   fst (submitFeedback all_on [ann, eve] nov26 [leak resolved] 10 2 (Some ''still broken'') 1) =
     Inr ((leak resolved)
       \<lparr>status := escalated,
        feedback := \<lparr>rating = Some 2, comment = Some ''still broken'',
                     submittedAt = Some nov26\<rparr>,
        escalation := \<lparr>escalatedAt = Some nov26, reason = Some ''still broken'',
                       appellateAuthority = None, finalResolutionText = None,
                       finalResolvedAt = None\<rparr>,
        history := history (leak resolved) @
          [\<lparr>h_status = escalated, updatedBy = 1, timestamp = nov26,
            h_notes = ''User not satisfied with resolution. Rating: 2/5, Comment: still broken''\<rparr>],
        updatedAt := nov26\<rparr>)"
  by (simp add: approved_with_role_def ann_def eve_def submitFeedback_def submitFeedback_body_def
      transact_def Let_def findById_leak feedback_escalate_def push_history_def on_save_old
      no_escalation_def feedback_note_def dec_int_def dec.simps digit_char_def)
    (simp add: leak_def)


section \<open>Assignment to staff\<close>





section \<open>Assignment to an agency\<close>

text \<open>
  C2. \<open>assignComplaint\<close> does not look at the status. On Ann's complaint in the
  terminal status \<open>closed\<close> it succeeds, moves the complaint to \<open>assigned\<close> and
  appends a history entry: a transition outside the graph.
\<close>

theorem assignComplaint_reopens_closed:
  "status (leak closed) = closed \<and>
   fst (assignComplaint all_on [eve, sam] nov26 [leak closed] 10 3 5) =
     Inr ((leak closed)
       \<lparr>status := assigned, assignedAgency := Some 3, assignedAt := Some nov26,
        history := history (leak closed) @
          [\<lparr>h_status = assigned, updatedBy = 5, timestamp = nov26,
            h_notes = ''Assigned to Eve''\<rparr>],
        updatedAt := nov26\<rparr>)"
  by (simp add: assignComplaint_def assignComplaint_body_def transact_def Let_def findById_leak
      approved_with_role_def eve_def sam_def push_history_def on_save_old)
    (simp add: leak_def)


section \<open>Role scoping\<close>

text \<open>
  What holds of the scoping: for a resident all three controllers force the reporter
  filter, and the listing of a resident holds only their own complaints; for a
  department admin with a department the listing and the statistics force the
  category filter.
\<close>

lemma filters_after_common [simp]:
  "f_userId (date_filters q f) = f_userId f"
  "f_category (date_filters q f) = f_category f"
  "f_userId (resource_filter q f) = f_userId f"
  "f_category (resource_filter q f) = f_category f"
  "f_userId (status_filter q f) = f_userId f"
  "f_category (status_filter q f) = f_category f"
  by (simp_all add: date_filters_def resource_filter_def status_filter_def
      split: option.splits)

lemma resident_filters:
  assumes "urole usr = ''resident''"
  shows "f_userId (getComplaints_filters usr q) = Some (uid usr)"
    and "f_userId (getComplaintStats_filters usr q) = Some (uid usr)"
    and "f_userId (getCategoryDistribution_filters usr q) = Some (uid usr)"
  using assms
  by (simp_all add: getComplaints_filters_def getComplaintStats_filters_def
      getCategoryDistribution_filters_def no_filters_def)

lemma departmentAdmin_filters:
  assumes "urole usr = ''departmentAdmin''"
  shows "f_category (getComplaints_filters usr q) = udepartment usr"
    and "f_category (getComplaintStats_filters usr q) = udepartment usr"
  using assms
  by (simp_all add: getComplaints_filters_def getComplaintStats_filters_def no_filters_def
      user_filter_def split: option.splits)

lemma page_subset: "set (take l (drop k xs)) \<subseteq> set xs"
  by (rule order_trans [OF set_take_subset set_drop_subset])

lemma set_insert_sorted: "set (insert_sorted le x xs) = insert x (set xs)"
  by (induction xs) auto

lemma set_sort_docs: "set (sort_docs le xs) = set xs"
  unfolding sort_docs_def by (induction xs) (simp_all add: set_insert_sorted)

lemma listing_within_hits:
  assumes "c \<in> set (fst (getComplaints f page limit sortField sortOrder store))"
  shows "c \<in> set store \<and> getComplaints_query f c"
proof -
  from assms
  have "c \<in> set (take limit (drop ((page - 1) * limit)
      (sort_docs (sort_le sortField sortOrder) (filter (getComplaints_query f) store))))"
    by (simp add: getComplaints_def Let_def)
  then have "c \<in> set (sort_docs (sort_le sortField sortOrder)
      (filter (getComplaints_query f) store))"
    by (rule subsetD [OF page_subset])
  then show ?thesis
    by (simp add: set_sort_docs)
qed

lemma resident_listing_own:
  assumes "urole usr = ''resident''"
    and "c \<in> set (fst (getComplaints (getComplaints_filters usr q) page limit sortField
                         sortOrder store))"
  shows "userId c = uid usr"
proof -
  from assms(2) have "getComplaints_query (getComplaints_filters usr q) c"
    using listing_within_hits by blast
  then have "id_matches (f_userId (getComplaints_filters usr q)) (userId c)"
    by (simp add: getComplaints_query_def)
  with assms(1) show ?thesis
    by (simp add: resident_filters id_matches_def)
qed

lemma departmentAdmin_listing_own:
  assumes "urole usr = ''departmentAdmin''" and "udepartment usr = Some dep" and "dep \<noteq> []"
    and "c \<in> set (fst (getComplaints (getComplaints_filters usr q) page limit sortField
                         sortOrder store))"
  shows "category c = dep"
proof -
  from assms(4) have "getComplaints_query (getComplaints_filters usr q) c"
    using listing_within_hits by blast
  then have "str_matches (f_category (getComplaints_filters usr q)) (category c)"
    by (simp add: getComplaints_query_def)
  with assms(1-3) show ?thesis
    by (simp add: departmentAdmin_filters str_matches_def)
qed

text \<open>The default sort puts the newest complaint first.\<close>

lemma listing_newest_first:
  "getComplaints_handler root no_query None None None None [leak pending, nov_leak] =
     ([nov_leak, leak pending], 2)"
  by (simp add: getComplaints_handler_def getComplaints_def getComplaints_filters_def
      getComplaints_query_def root_def no_query_def date_filters_def resource_filter_def
      user_filter_def status_filter_def category_filter_def no_filters_def id_matches_def
      str_matches_def range_matches_def Let_def sort_docs_def sort_le_def nov_leak_def
      leak_def nov26_def date_le_def date_lt_def)

text \<open>
  C3. The scoping is not the same on the three paths. The listing and the statistics
  force a department admin's category to the own department;
  \<open>getCategoryDistribution\<close> does not. For Eve, department admin of Electrical,
  and a store that holds one Civil complaint of Ann's, the listing is empty and the
  statistics count nothing, but the category distribution has a row for Civil.
  The listing is taken with the controller's defaults: page 1, limit 10, sorted by
  \<open>createdAt\<close>, descending.
\<close>

theorem departmentAdmin_sees_other_department:
  "urole eve = ''departmentAdmin'' \<and> udepartment eve = Some ''Electrical'' \<and>
   category (leak pending) = ''Civil'' \<and>
   getCategoryDistribution (getCategoryDistribution_filters eve no_query) [leak pending] =
     [(''Civil'', 1)] \<and>
   getComplaints (getComplaints_filters eve no_query) 1 10 By_createdAt Descending
     [leak pending] = ([], 0) \<and>
   total (getComplaintStats (getComplaintStats_filters eve no_query) [leak pending]) = 0"
  by (simp add: eve_def leak_def no_query_def getCategoryDistribution_def
      getCategoryDistribution_filters_def getCategoryDistribution_match_def
      getComplaints_def getComplaints_filters_def getComplaints_query_def
      getComplaintStats_def getComplaintStats_filters_def getComplaintStats_match_def
      date_filters_def resource_filter_def user_filter_def status_filter_def category_filter_def
      no_filters_def id_matches_def str_matches_def range_matches_def Let_def sort_docs_def)

section \<open>Submitting\<close>

text \<open>
  What the route refuses: a body with more than 2 images, a description of more than
  1000 characters, a category other than Electrical, Civil and Misc, or an empty
  subcategory is answered 400, with the store as it was and nothing sent. The
  subcategory is not compared with the category's set.
\<close>

lemma createComplaint_refused:
  assumes "(case d_images body of None \<Rightarrow> False | Some xs \<Rightarrow> 2 < length xs) \<or>
    1000 < length (d_description body) \<or>
    d_category body \<notin> set [''Electrical'', ''Civil'', ''Misc''] \<or>
    d_subcategory body = []"
  shows "createComplaint_handler delivers users now store body usr =
        (Status400 ''validation errors'', store, [])"
proof -
  from assms have "\<not> create_validators_pass body"
    by (auto simp add: create_validators_pass_def split: option.splits)
  then show ?thesis
    by (simp add: createComplaint_handler_def)
qed

text \<open>What passes the route reaches the service, and the service's \<open>save\<close> throws.\<close>

lemma createComplaint_passed:
  assumes "create_validators_pass body"
  shows "createComplaint_handler delivers users now store body usr =
        (Status500 (ValidationError ''Complaint validation failed''), store,
         [StartTransaction, AbortTransaction])"
  using assms
  by (cases "d_images body")
    (simp_all add: createComplaint_handler_def create_validators_pass_def to_response_def
      createComplaint_fails)

lemma mixed_body_passes: "create_validators_pass mixed_body"
  by (simp add: create_validators_pass_def mixed_body_def)

text \<open>
  C7. On valid input no complaint is created. The body with the category Electrical
  and its subcategory Lighting meets every validator, and the answer is 500: the
  new document reaches \<open>save\<close> without a \<open>complaintId\<close>, the schema requires one, the
  validation throws before the hook that would set it, the transaction aborts, the
  store stays empty and nothing is sent.
\<close>

theorem valid_submission_not_stored:
  "create_validators_pass lighting_body \<and>
   COMPLAINT_CATEGORIES ''Electrical'' =
     Some [''Lighting'', ''Power Outlets'', ''Fan/AC'', ''Electrical Appliances'',
           ''Switchboard'', ''Wiring Issues'', ''UPS/Inverter'', ''Other Electrical''] \<and>
   d_category lighting_body = ''Electrical'' \<and> d_subcategory lighting_body = ''Lighting'' \<and>
   createComplaint_handler all_on [eve] nov26 [] lighting_body ann =
     (Status500 (ValidationError ''Complaint validation failed''), [],
      [StartTransaction, AbortTransaction])"
  by (simp add: COMPLAINT_CATEGORIES_def lighting_body_def createComplaint_handler_def
      create_validators_pass_def to_response_def createComplaint_fails)

section \<open>The identifier\<close>

text \<open>
  The window of the hook's count is the calendar month of \<open>now\<close>, for dates whose
  month index is below 12.
\<close>

lemma in_month_window:
  assumes "monthIx d < 12" and "monthIx t < 12"
  shows "date_le (mkDate (fullYear d) (monthIx d)) t \<and>
         date_lt t (mkDate (fullYear d) (monthIx d + 1)) \<longleftrightarrow>
         fullYear t = fullYear d \<and> monthIx t = monthIx d"
proof (cases "monthIx d = 11")
  case True
  then show ?thesis
    using assms by (cases t) (auto simp add: mkDate_def date_le_def date_lt_def)
next
  case False
  with assms have "monthIx d + 1 < 12" by simp
  then have "(monthIx d + 1) div 12 = 0" "(monthIx d + 1) mod 12 = monthIx d + 1"
    by simp_all
  then show ?thesis
    using assms by (cases t) (auto simp add: mkDate_def date_le_def date_lt_def)
qed

lemma countDocuments_month_calendar:
  assumes "monthIx d < 12" and "\<forall>x\<in>set store. monthIx (createdAt x) < 12"
  shows "countDocuments_month store d =
         length (filter (\<lambda>x. fullYear (createdAt x) = fullYear d \<and>
                              monthIx (createdAt x) = monthIx d) store)"
proof -
  have "filter (\<lambda>c. date_le (mkDate (fullYear d) (monthIx d)) (createdAt c) \<and>
                     date_lt (createdAt c) (mkDate (fullYear d) (monthIx d + 1))) store =
        filter (\<lambda>x. fullYear (createdAt x) = fullYear d \<and>
                     monthIx (createdAt x) = monthIx d) store"
    using assms by (intro filter_cong refl in_month_window) simp_all
  then show ?thesis
    by (simp add: countDocuments_month_def)
qed

lemma length_dec_le: "0 < k \<Longrightarrow> n < 10 ^ k \<Longrightarrow> length (dec n) \<le> k"
proof (induction k arbitrary: n)
  case 0
  then show ?case by simp
next
  case (Suc k)
  show ?case
  proof (cases "n < 10")
    case True
    then show ?thesis by (simp add: dec.simps)
  next
    case False
    with Suc.prems have k: "0 < k"
      by (cases k) simp_all
    from Suc.prems have "n div 10 < 10 ^ k"
      by (simp add: less_mult_imp_div_less mult.commute)
    with Suc.IH k have "length (dec (n div 10)) \<le> k" by blast
    with False show ?thesis
      by (subst dec.simps) simp
  qed
qed

lemma length_dec_pos: "0 < length (dec n)"
  by (subst dec.simps) simp

lemma length_dec_ge2:
  assumes "10 \<le> n"
  shows "2 \<le> length (dec n)"
proof -
  from assms have "dec n = dec (n div 10) @ [digit_char (n mod 10)]"
    by (subst dec.simps) simp
  moreover have "1 \<le> length (dec (n div 10))"
    using length_dec_pos [of "n div 10"] by linarith
  ultimately show ?thesis by simp
qed

lemma length_padStart: "length s \<le> n \<Longrightarrow> length (padStart n c s) = n"
  by (simp add: padStart_def)

lemma length_slice_last: "n \<le> length s \<Longrightarrow> length (slice_last n s) = n"
  by (simp add: slice_last_def)

lemma length_next_complaintId:
  assumes "10 \<le> fullYear d" and "monthIx d < 12" and "countDocuments_month store d + 1 < 10000"
  shows "length (next_complaintId d store) = 14"
proof -
  have y: "length (slice_last 2 (dec (fullYear d))) = 2"
    using assms(1) by (intro length_slice_last length_dec_ge2)
  have "monthIx d + 1 < 10 ^ 2" using assms(2) by simp
  then have m: "length (padStart 2 CHR ''0'' (dec (monthIx d + 1))) = 2"
    by (intro length_padStart length_dec_le) simp_all
  have "countDocuments_month store d + 1 < 10 ^ 4" using assms(3) by simp
  then have n: "length (padStart 4 CHR ''0'' (dec (countDocuments_month store d + 1))) = 4"
    by (intro length_padStart length_dec_le) simp_all
  show ?thesis
    using y m n by (simp add: next_complaintId_def)
qed

lemma save_doc_keeps_complaintIds:
  assumes "findById store i = Some c0" and "c_id c' = i" and "complaintId c' = complaintId c0"
    and "distinct (map c_id store)"
  shows "map complaintId (save_doc c' store) = map complaintId store"
proof -
  have c0: "c0 \<in> set store" "c_id c0 = i"
    using assms(1) by (auto simp add: findById_def find_Some_iff)
  have "d = c0" if "d \<in> set store" "c_id d = i" for d
    using that c0 assms(4) by (auto simp add: distinct_map inj_on_def)
  then have "map complaintId (map (\<lambda>d. if c_id d = c_id c' then c' else d) store) =
             map complaintId store"
    using assms(2,3) by (auto simp add: map_idI)
  with assms(1,2) show ?thesis
    by (simp add: save_doc_def)
qed

lemma transact_keeps_complaintIds:
  assumes "distinct (map c_id store)"
    and "\<And>c'. snd r = Inr c' \<Longrightarrow>
           \<exists>c0. findById store i = Some c0 \<and> c_id c' = i \<and> complaintId c' = complaintId c0"
  shows "map complaintId (fst (snd (transact store r))) = map complaintId store"
proof (cases "snd r")
  case (Inl e)
  then show ?thesis by (simp add: transact_def)
next
  case (Inr c')
  with assms(2) obtain c0 where "findById store i = Some c0" "c_id c' = i"
    "complaintId c' = complaintId c0" by blast
  with assms(1) have "map complaintId (save_doc c' store) = map complaintId store"
    by (intro save_doc_keeps_complaintIds)
  with Inr show ?thesis by (simp add: transact_def)
qed

lemma push_history_ids [simp]:
  "c_id (push_history s a t n c) = c_id c" "complaintId (push_history s a t n c) = complaintId c"
  by (simp_all add: push_history_def)

lemma feedback_branch_ids:
  "c_id (fst (feedback_close delivers now actor r cm c1)) = c_id c1"
  "complaintId (fst (feedback_close delivers now actor r cm c1)) = complaintId c1"
  "c_id (fst (feedback_escalate delivers users now actor r cm c1)) = c_id c1"
  "complaintId (fst (feedback_escalate delivers users now actor r cm c1)) = complaintId c1"
  by (simp_all add: feedback_close_def feedback_escalate_def Let_def split: option.splits)

lemma update_keeps_complaintIds:
  assumes "distinct (map c_id store)"
  shows "map complaintId (fst (snd (assignComplaint delivers users now store cid agencyId actor))) =
           map complaintId store"
    and "map complaintId (fst (snd (assignToStaff delivers users now store cid staffId agencyId))) =
           map complaintId store"
    and "map complaintId (fst (snd (resolveComplaint delivers now store cid n actor))) =
           map complaintId store"
    and "map complaintId (fst (snd (submitFeedback delivers users now store cid r cm actor))) =
           map complaintId store"
    and "map complaintId (fst (snd (finalizeComplaint delivers now store cid res actor))) =
           map complaintId store"
  unfolding assignComplaint_def assignToStaff_def resolveComplaint_def submitFeedback_def
    finalizeComplaint_def
  by (rule transact_keeps_complaintIds [OF assms, where i = cid];
      auto simp add: assignComplaint_body_def assignToStaff_body_def resolveComplaint_body_def
        submitFeedback_body_def finalizeComplaint_body_def Let_def on_save_old
        feedback_branch_ids
      split: option.splits if_splits dest: findById_c_id)+

lemma create_appends:
  "\<exists>ys. fst (snd (createComplaint delivers users now store d usr)) = store @ ys"
  by (simp add: createComplaint_fails)

lemma run_call_keeps_complaintIds:
  assumes "distinct (map c_id store)"
  shows "\<exists>ys. map complaintId (fst (snd (run_call delivers users now store call))) =
           map complaintId store @ ys"
proof (cases call)
  case (CreateComplaint d usr)
  from create_appends [of delivers users now store d usr]
  obtain ys where "fst (snd (createComplaint delivers users now store d usr)) = store @ ys"
    by blast
  with CreateComplaint show ?thesis by simp
qed (simp_all add: update_keeps_complaintIds [OF assms])

text \<open>
  What the hook computes for a new document: \<open>CMP-\<close>, the last two digits of the
  year, \<open>-\<close>, the month padded to two digits, \<open>-\<close>, and \<open>k + 1\<close> padded to four
  digits, where \<open>k\<close> is the number of stored complaints created in the same calendar
  month.
\<close>

lemma pre_save_format:
  assumes "monthIx now < 12" and "\<forall>x\<in>set store. monthIx (createdAt x) < 12"
  shows "complaintId (pre_save now store True doc) =
           ''CMP-'' @ slice_last 2 (dec (fullYear now)) @ ''-'' @
           padStart 2 CHR ''0'' (dec (monthIx now + 1)) @ ''-'' @
           padStart 4 CHR ''0''
             (dec (length (filter (\<lambda>x. fullYear (createdAt x) = fullYear now \<and>
                                        monthIx (createdAt x) = monthIx now) store) + 1))"
  using countDocuments_month_calendar [OF assms]
  by (simp add: pre_save_def next_complaintId_def)

lemma sample_next_ids:
  "next_complaintId nov26 [leak pending] = ''CMP-26-11-0001''"
  "next_complaintId nov26 [leak pending, nov_leak] = ''CMP-26-11-0002''"
  by code_simp+

text \<open>
  C8. No complaint is assigned an identifier at creation. The hook would give the
  first complaint of November 2026 the identifier \<open>CMP-26-11-0001\<close>, but it does not
  run: the document the service builds has no \<open>complaintId\<close>, the schema requires
  one, and \<open>save\<close> validates before the hook. \<open>createComplaint\<close> throws, the
  transaction aborts and the store stays empty.
\<close>

theorem complaintId_never_assigned:
  "complaintId (new_complaint nov26 [] 7 lighting_body ann) = [] \<and>
   complaintId (pre_save nov26 [] True (new_complaint nov26 [] 7 lighting_body ann)) =
     ''CMP-26-11-0001'' \<and>
   createComplaint all_on [eve] nov26 [] lighting_body ann =
     (Inl (ValidationError ''Complaint validation failed''), [],
      [StartTransaction, AbortTransaction])"
  by (simp add: createComplaint_fails pre_save_def next_id_first) (simp add: new_complaint_def)

section \<open>Notifications and the commit\<close>

lemma sendNotification_inside: "list_all inside_tx (fst (sendNotification delivers to title msg))"
  by (simp add: sendNotification_def Let_def inside_tx_def is_notification_def)

lemma saved_inside: "inside_tx (Saved i)"
  by (simp add: inside_tx_def is_saved_def)

lemma feedback_branch_events:
  "list_all inside_tx (snd (feedback_close delivers now actor r cm c1))"
  "list_all inside_tx (snd (feedback_escalate delivers users now actor r cm c1))"
  by (simp_all add: feedback_close_def feedback_escalate_def Let_def sendNotification_inside
      split: option.splits)

lemma audience_events:
  "list_all inside_tx
     (concat (map (\<lambda>a. fst (sendNotification delivers (to a) title (msg a))) xs))"
  by (induction xs) (simp_all add: sendNotification_inside)

lemma body_results_ignore_delivery:
  "snd (createComplaint_body delivers users now store d usr) =
     snd (createComplaint_body delivers' users now store d usr)"
  "snd (assignComplaint_body delivers users now store cid agencyId actor) =
     snd (assignComplaint_body delivers' users now store cid agencyId actor)"
  "snd (assignToStaff_body delivers users now store cid staffId agencyId) =
     snd (assignToStaff_body delivers' users now store cid staffId agencyId)"
  "snd (resolveComplaint_body delivers now store cid n actor) =
     snd (resolveComplaint_body delivers' now store cid n actor)"
  "snd (submitFeedback_body delivers users now store cid r cm actor) =
     snd (submitFeedback_body delivers' users now store cid r cm actor)"
  "snd (finalizeComplaint_body delivers now store cid res actor) =
     snd (finalizeComplaint_body delivers' now store cid res actor)"
  by (auto simp add: createComplaint_body_def assignComplaint_body_def assignToStaff_body_def
      resolveComplaint_body_def submitFeedback_body_def finalizeComplaint_body_def Let_def
      feedback_close_def feedback_escalate_def
      split: option.splits sum.splits)

lemma body_events_inside:
  "list_all inside_tx (fst (createComplaint_body delivers users now store d usr))"
  "list_all inside_tx (fst (assignComplaint_body delivers users now store cid agencyId actor))"
  "list_all inside_tx (fst (assignToStaff_body delivers users now store cid staffId agencyId))"
  "list_all inside_tx (fst (resolveComplaint_body delivers now store cid n actor))"
  "list_all inside_tx (fst (submitFeedback_body delivers users now store cid r cm actor))"
  "list_all inside_tx (fst (finalizeComplaint_body delivers now store cid res actor))"
  by (simp_all add: createComplaint_body_def assignComplaint_body_def assignToStaff_body_def
      resolveComplaint_body_def submitFeedback_body_def finalizeComplaint_body_def Let_def
      sendNotification_inside saved_inside feedback_branch_events audience_events
      split: option.splits sum.splits)

lemma transact_shape:
  assumes "snd r = snd r'" and "list_all inside_tx (fst r)"
  shows "fst (transact store r) = fst (transact store r') \<and>
         fst (snd (transact store r)) = fst (snd (transact store r')) \<and>
         (case fst (transact store r) of
            Inl e \<Rightarrow> fst (snd (transact store r)) = store \<and>
                     last (snd (snd (transact store r))) = AbortTransaction
          | Inr c \<Rightarrow> fst (snd (transact store r)) = save_doc c store \<and>
                     (\<exists>evs. snd (snd (transact store r)) =
                              StartTransaction # evs @ [CommitTransaction] \<and>
                            list_all inside_tx evs))"
proof (cases "snd r'")
  case (Inl e)
  with assms(1) have "snd r = Inl e" by simp
  with Inl show ?thesis by (simp add: transact_def)
next
  case (Inr c)
  with assms(1) have "snd r = Inr c" by simp
  with Inr assms(2) show ?thesis by (simp add: transact_def)
qed

text \<open>
  C9, as the code has it. For every call of the service, whatever the deliveries do:
  the result and the store afterwards are the same as with any other behaviour of
  the deliveries, so a failed notification, which is only logged, neither prevents
  nor undoes the change. A call that fails leaves the store as it was and ends with
  the abort. A call that succeeds stores the returned document, and its trace is the
  start of the transaction, then saves and notifications only, then the commit: the
  notifications are dispatched inside the transaction, before the commit.
\<close>

theorem notifications_inside_transaction:
  "fst (run_call delivers users now store call) = fst (run_call delivers' users now store call) \<and>
   fst (snd (run_call delivers users now store call)) =
     fst (snd (run_call delivers' users now store call)) \<and>
   (case fst (run_call delivers users now store call) of
      Inl e \<Rightarrow> fst (snd (run_call delivers users now store call)) = store \<and>
               last (snd (snd (run_call delivers users now store call))) = AbortTransaction
    | Inr c \<Rightarrow> fst (snd (run_call delivers users now store call)) = save_doc c store \<and>
               (\<exists>evs. snd (snd (run_call delivers users now store call)) =
                        StartTransaction # evs @ [CommitTransaction] \<and>
                      list_all inside_tx evs))"
proof (cases call)
  case (CreateComplaint d usr)
  then show ?thesis
    unfolding CreateComplaint run_call.simps createComplaint_def
    by (intro transact_shape body_results_ignore_delivery body_events_inside)
next
  case (AssignComplaint cid agencyId actor)
  then show ?thesis
    unfolding AssignComplaint run_call.simps assignComplaint_def
    by (intro transact_shape body_results_ignore_delivery body_events_inside)
next
  case (AssignToStaff cid staffId agencyId)
  then show ?thesis
    unfolding AssignToStaff run_call.simps assignToStaff_def
    by (intro transact_shape body_results_ignore_delivery body_events_inside)
next
  case (ResolveComplaint cid n actor)
  then show ?thesis
    unfolding ResolveComplaint run_call.simps resolveComplaint_def
    by (intro transact_shape body_results_ignore_delivery body_events_inside)
next
  case (SubmitFeedback cid r cm actor)
  then show ?thesis
    unfolding SubmitFeedback run_call.simps submitFeedback_def
    by (intro transact_shape body_results_ignore_delivery body_events_inside)
next
  case (FinalizeComplaint cid res actor)
  then show ?thesis
    unfolding FinalizeComplaint run_call.simps finalizeComplaint_def
    by (intro transact_shape body_results_ignore_delivery body_events_inside)
qed

text \<open>
  C9 as stated fails: the dispatch is not after the commit. \<open>assignComplaint\<close> sends
  its two notifications between the save and the commit; \<open>submitFeedback\<close> sends its
  notification before the save.
\<close>

theorem dispatch_before_commit_counterexample:
  "snd (snd (assignComplaint all_on [eve, sam] nov26 [leak pending] 10 3 5)) =
     [StartTransaction, Saved 10,
      Delivered \<lparr>n_recipient = Some 3, n_title = ''Complaint Assigned'',
        n_message = ''A complaint CMP-26-10-0001 has been assigned to you''\<rparr>,
      Delivered \<lparr>n_recipient = Some 1, n_title = ''Complaint Update'',
        n_message = ''Your complaint CMP-26-10-0001 has been assigned to maintenance staff''\<rparr>,
      CommitTransaction] \<and>
   snd (snd (submitFeedback all_on [ann, root] nov26 [leak resolved] 10 5 None 1)) =
     [StartTransaction,
      Delivered \<lparr>n_recipient = None, n_title = ''Complaint Closed'',
        n_message = ''Complaint CMP-26-10-0001 has been closed with rating: 5/5''\<rparr>,
      Saved 10, CommitTransaction]"
  by (simp add: assignComplaint_def assignComplaint_body_def submitFeedback_def
      submitFeedback_body_def transact_def Let_def findById_leak approved_with_role_def
      eve_def sam_def push_history_def on_save_old feedback_close_def sendNotification_def
      all_on_def dec_int_def dec.simps digit_char_def)
    (simp add: leak_def)


section \<open>Feedback and the caller\<close>


lemma with_actor_fields [simp]:
  "status (with_actor a c) = status c"
  "feedback (with_actor a c) = feedback c"
  "escalation (with_actor a c) = escalation c"
  "c_id (with_actor a c) = c_id c"
  "complaintId (with_actor a c) = complaintId c"
  "userId (with_actor a c) = userId c"
  by (simp_all add: with_actor_def split: list.splits)














end
